theory Spec2Isabelle
  imports Complex_Main
begin

section \<open>Python values used by the hooks\<close>

text \<open>
  A Python \<open>str\<close> is a sequence of Unicode code points; a code point is a natural
  number. \<open>u\<close> turns an ASCII literal into such a sequence.
\<close>

type_synonym ustr = "nat list"

definition u :: "string \<Rightarrow> ustr" where
  "u s = map of_char s"

text \<open>
  The value \<open>json.load\<close> builds. An object keeps its members in document order; a
  later duplicate key overrides an earlier one, as in the dict that \<open>json.load\<close> fills.
\<close>

datatype json =
    JNull
  | JBool bool
  | JInt int
  | JFloat real
  | JStr ustr
  | JArr "json list"
  | JObj "(ustr \<times> json) list"

text \<open>
  What \<open>json.load(sys.stdin)\<close> gives: it raises on input that is not JSON or that
  cannot be read (\<open>Malformed\<close>; the model has the one exception
  \<open>JSONDecodeError\<close> for this), otherwise it returns the parsed value.
\<close>

datatype stdin = Malformed | Parsed json

datatype py_exn = JSONDecodeError | AttributeError | TypeError | UnicodeEncodeError

text \<open>
  How a block of Python code ends: it runs to its end, it raises an exception, or it
  calls \<open>sys.exit\<close> (\<open>SystemExit\<close> is not an \<open>Exception\<close>, so the handlers
  \<open>except Exception\<close> of the hooks let it through).
\<close>

datatype 'a outcome = Returns 'a | Raises py_exn | Exits nat

text \<open>
  Standard output is a text stream with the encoding UTF-8 and the error handler
  \<open>strict\<close>, as Python opens it in a UTF-8 locale and in UTF-8 mode. \<open>print(line)\<close>
  encodes the whole line before it writes any of it. A surrogate code point (a \<open>str\<close>
  that \<open>json.load\<close> built from an escape such as \<^verbatim>\<open>\ud800\<close> can hold one) has
  no encoding in UTF-8: then \<open>print\<close> raises \<open>UnicodeEncodeError\<close> and nothing of
  the line is written, while the lines printed before it stay.
\<close>

definition is_surrogate :: "nat \<Rightarrow> bool" where
  "is_surrogate c = (55296 \<le> c \<and> c \<le> 57343)"

definition encodable :: "ustr \<Rightarrow> bool" where
  "encodable line = list_all (\<lambda>c. \<not> is_surrogate c) line"

text \<open>
  A sequence of calls of \<open>print\<close>, one for each line, followed by code that ends as
  \<open>fin\<close>: the lines written and how the block ends.
\<close>

fun print_lines :: "ustr list \<Rightarrow> 'a outcome \<Rightarrow> ustr list \<times> 'a outcome" where
  "print_lines [] fin = ([], fin)"
| "print_lines (line # lines) fin =
     (if encodable line
      then (case print_lines lines fin of (out, r) \<Rightarrow> (line # out, r))
      else ([], Raises UnicodeEncodeError))"

text \<open>
  A run of a hook: the lines written to standard output, in order, and the exit status.
\<close>

type_synonym run = "ustr list \<times> nat"

text \<open>Truth value of a Python object, as \<open>if x\<close> and \<open>x or y\<close> test it.\<close>

fun truthy :: "json \<Rightarrow> bool" where
  "truthy JNull = False"
| "truthy (JBool b) = b"
| "truthy (JInt i) = (i \<noteq> 0)"
| "truthy (JFloat x) = (x \<noteq> 0)"
| "truthy (JStr s) = (s \<noteq> [])"
| "truthy (JArr xs) = (xs \<noteq> [])"
| "truthy (JObj kvs) = (kvs \<noteq> [])"

text \<open>\<open>d.get(k, default)\<close>: only a dict has the method.\<close>

fun py_get :: "json \<Rightarrow> ustr \<Rightarrow> json \<Rightarrow> py_exn + json" where
  "py_get (JObj kvs) k d = Inr (case map_of (rev kvs) k of None \<Rightarrow> d | Some v \<Rightarrow> v)"
| "py_get _ k d = Inl AttributeError"

text \<open>
  \<open>tool_input.get('content', '') or tool_input.get('new_string', '')\<close>, the
  expression by which security-check.py and pre-commit-check.py choose the text to scan:
  the second operand of \<open>or\<close> is evaluated when the first is false.
\<close>

definition tool_content :: "json \<Rightarrow> py_exn + json" where
  "tool_content tool_input =
     (case py_get tool_input (u ''content'') (JStr []) of
        Inl e \<Rightarrow> Inl e
      | Inr c1 \<Rightarrow> if truthy c1 then Inr c1 else py_get tool_input (u ''new_string'') (JStr []))"

subsection \<open>String operations\<close>

text \<open>\<open>sub in s\<close> on strings.\<close>

fun starts_with :: "ustr \<Rightarrow> ustr \<Rightarrow> bool" where
  "starts_with [] s = True"
| "starts_with (p # ps) [] = False"
| "starts_with (p # ps) (c # cs) = (p = c \<and> starts_with ps cs)"

fun contains :: "ustr \<Rightarrow> ustr \<Rightarrow> bool" where
  "contains sub [] = (sub = [])"
| "contains sub (c # cs) = (starts_with sub (c # cs) \<or> contains sub cs)"

text \<open>
  The tables of the Unicode database that the hooks consult through \<open>str.lower\<close>,
  \<open>re\<close> and \<open>int\<close>. The tables are not reproduced here: they are an argument
  \<open>U\<close> of every function that consults them, and they are asked about code points from
  128 on only; on ASCII every function below is written out. The fields are
  \<open>str.lower\<close> on a whole string (the full case mapping, which may change the length),
  the simple lower-case mapping of one code point (\<open>_sre.unicode_tolower\<close>), whether a
  code point is cased (\<open>_sre.unicode_iscased\<close>), the further code points that
  \<open>re\<close> treats as the same letter under \<open>(?i)\<close> (the table
  \<open>_ignorecase_fixes\<close>), \<open>str.isalnum\<close> on one code point, and the value of a
  decimal digit (\<open>unicodedata.decimal\<close>).
\<close>

record unicode_db =
  str_lower :: "ustr \<Rightarrow> ustr"
  unicode_tolower :: "nat \<Rightarrow> nat"
  unicode_iscased :: "nat \<Rightarrow> bool"
  ignorecase_fixes :: "nat \<Rightarrow> nat list"
  isalnum :: "nat \<Rightarrow> bool"
  decimal :: "nat \<Rightarrow> nat option"

text \<open>
  \<open>str.lower\<close>: on a string of ASCII characters the letters \<open>A\<close> to \<open>Z\<close> are
  mapped to \<open>a\<close> to \<open>z\<close>; any other string is lower-cased by the Unicode database.
\<close>

definition lower_cp :: "nat \<Rightarrow> nat" where
  "lower_cp c = (if 65 \<le> c \<and> c \<le> 90 then c + 32 else c)"

definition is_ascii :: "ustr \<Rightarrow> bool" where
  "is_ascii s = list_all (\<lambda>c. c < 128) s"

definition lower :: "unicode_db \<Rightarrow> ustr \<Rightarrow> ustr" where
  "lower U s = (if is_ascii s then map lower_cp s else str_lower U s)"

text \<open>\<open>s.lstrip(chars)\<close> removes every leading character that occurs in \<open>chars\<close>.\<close>

definition lstrip :: "ustr \<Rightarrow> ustr \<Rightarrow> ustr" where
  "lstrip chars s = dropWhile (\<lambda>c. c \<in> set chars) s"

text \<open>\<open>os.path.basename\<close> (posixpath): what follows the last slash.\<close>

definition basename :: "ustr \<Rightarrow> ustr" where
  "basename p = rev (takeWhile (\<lambda>c. c \<noteq> 47) (rev p))"

text \<open>
  \<open>os.path.splitext(p)[1]\<close> (posixpath): the extension starts at the last dot of the
  basename, provided some character of the basename before that dot is not a dot.
\<close>

definition splitext_ext :: "ustr \<Rightarrow> ustr" where
  "splitext_ext p =
     (let b = basename p;
          tail = rev (takeWhile (\<lambda>c. c \<noteq> 46) (rev b));
          stem = rev (drop 1 (dropWhile (\<lambda>c. c \<noteq> 46) (rev b)))
      in if 46 \<in> set b \<and> (\<exists>c \<in> set stem. c \<noteq> 46) then 46 # tail else [])"

text \<open>\<open>str(n)\<close> for a natural number.\<close>

function str_of_nat :: "nat \<Rightarrow> ustr" where
  "str_of_nat n = (if n < 10 then [48 + n] else str_of_nat (n div 10) @ [48 + n mod 10])"
  by pat_completeness auto
termination
  by (relation "measure id") auto

declare str_of_nat.simps [simp del]

text \<open>
  \<open>fnmatch.fnmatch(name, pat)\<close> on a POSIX system (no case normalisation): \<open>*\<close>
  stands for any sequence of characters, slashes and newlines included, \<open>?\<close> for one
  character, the whole name must match. Bracket expressions, which no pattern of the
  hooks contains, are not modelled.
\<close>

fun fnmatch :: "ustr \<Rightarrow> ustr \<Rightarrow> bool" where
  "fnmatch [] [] = True"
| "fnmatch (c # cs) [] = False"
| "fnmatch [] (p # ps) = (p = 42 \<and> fnmatch [] ps)"
| "fnmatch (c # cs) (p # ps) =
     (if p = 42 then fnmatch (c # cs) ps \<or> fnmatch cs (p # ps)
      else (p = 63 \<or> p = c) \<and> fnmatch cs ps)"

section \<open>protect-files.py\<close>

definition PROTECTED_PATTERNS_WITH_REASONS :: "(ustr \<times> ustr) list" where
  "PROTECTED_PATTERNS_WITH_REASONS =
   [(u ''package-lock.json'', u ''Lock files should be updated via package manager (npm install), not edited directly''),
    (u ''yarn.lock'', u ''Lock files should be updated via package manager (yarn install), not edited directly''),
    (u ''pnpm-lock.yaml'', u ''Lock files should be updated via package manager (pnpm install), not edited directly''),
    (u ''Gemfile.lock'', u ''Lock files should be updated via package manager (bundle install), not edited directly''),
    (u ''poetry.lock'', u ''Lock files should be updated via package manager (poetry lock), not edited directly''),
    (u ''Cargo.lock'', u ''Lock files should be updated via package manager (cargo update), not edited directly''),
    (u ''.env'', u ''.env files contain secrets '' @ [8212] @ u '' edit manually outside of Claude Code''),
    (u ''.env.local'', u ''.env files contain secrets '' @ [8212] @ u '' edit manually outside of Claude Code''),
    (u ''.env.production'', u ''.env files contain secrets '' @ [8212] @ u '' edit manually outside of Claude Code''),
    (u ''**/secrets/*'', u ''Secrets directory contains sensitive data '' @ [8212] @ u '' manage outside of Claude Code''),
    (u ''**/credentials/*'', u ''Credentials directory contains sensitive data '' @ [8212] @ u '' manage outside of Claude Code''),
    (u ''.git/*'', u ''.git directory is managed by Git '' @ [8212] @ u '' never edit directly'')]"

definition PROTECTED_PATTERNS :: "ustr list" where
  "PROTECTED_PATTERNS = map fst PROTECTED_PATTERNS_WITH_REASONS"

definition PROTECTED_REASONS :: "ustr \<rightharpoonup> ustr" where
  "PROTECTED_REASONS = map_of (rev PROTECTED_PATTERNS_WITH_REASONS)"

definition WARN_PATTERNS :: "ustr list" where
  "WARN_PATTERNS =
   [u ''.github/workflows/*'', u ''docker-compose.yml'', u ''Dockerfile'', u ''**/production/*'']"

text \<open>The loop of \<open>matches_pattern\<close> over the patterns, on the stripped path.\<close>

fun first_match :: "ustr \<Rightarrow> ustr list \<Rightarrow> ustr option" where
  "first_match file_path [] = None"
| "first_match file_path (pattern # patterns) =
     (if fnmatch file_path pattern then Some pattern
      else if fnmatch (basename file_path) pattern then Some pattern
      else first_match file_path patterns)"

definition matches_pattern :: "ustr \<Rightarrow> ustr list \<Rightarrow> ustr option" where
  "matches_pattern file_path patterns = first_match (lstrip (u ''./'') file_path) patterns"

text \<open>The second half of \<open>main\<close>: the warning patterns.\<close>

definition protect_warn :: "ustr \<Rightarrow> ustr list \<times> unit outcome" where
  "protect_warn file_path =
     (case matches_pattern file_path WARN_PATTERNS of
        None \<Rightarrow> ([], Returns ())
      | Some warned \<Rightarrow>
          if warned = [] then ([], Returns ())
          else print_lines
                 [[9888, 65039] @ u '' WARNING: Editing sensitive file: '' @ file_path,
                  u ''   Matches pattern: '' @ warned] (Exits 0))"

text \<open>
  The body of the \<open>try\<close> of \<open>main\<close>. A \<open>file_path\<close> that is true and not a
  \<open>str\<close> has no method \<open>lstrip\<close>. The calls of \<open>print\<close> are inside the
  \<open>try\<close>, before \<open>sys.exit(2)\<close>.
\<close>

definition protect_files_body :: "stdin \<Rightarrow> ustr list \<times> unit outcome" where
  "protect_files_body inp =
     (case inp of
        Malformed \<Rightarrow> ([], Raises JSONDecodeError)
      | Parsed input_data \<Rightarrow>
         (case py_get input_data (u ''tool_input'') (JObj []) of
            Inl e \<Rightarrow> ([], Raises e)
          | Inr tool_input \<Rightarrow>
             (case py_get tool_input (u ''file_path'') (JStr []) of
                Inl e \<Rightarrow> ([], Raises e)
              | Inr fp \<Rightarrow>
                 if \<not> truthy fp then ([], Exits 0)
                 else (case fp of
                    JStr file_path \<Rightarrow>
                      (case matches_pattern file_path PROTECTED_PATTERNS of
                         None \<Rightarrow> protect_warn file_path
                       | Some blocked \<Rightarrow>
                           if blocked = [] then protect_warn file_path
                           else
                             let reason = (case PROTECTED_REASONS blocked of
                                             None \<Rightarrow> u ''This file is protected from edits''
                                           | Some r \<Rightarrow> r)
                             in print_lines
                                  [u ''BLOCKED: '' @ file_path,
                                   u ''   Matches protected pattern: '' @ blocked,
                                   u ''   Reason: '' @ reason,
                                   u ''   Use --force if this is intentional''] (Exits 2))
                  | _ \<Rightarrow> ([], Raises AttributeError)))))"

text \<open>
  \<open>main\<close>: \<open>except Exception\<close> ends the run with \<open>sys.exit(0)\<close>, also when
  the exception comes from \<open>print\<close>; when the body runs to its end the interpreter
  exits with status 0.
\<close>

definition finish :: "ustr list \<times> unit outcome \<Rightarrow> run" where
  "finish r = (case r of
      (out, Returns _) \<Rightarrow> (out, 0)
    | (out, Raises e) \<Rightarrow> (out, 0)
    | (out, Exits n) \<Rightarrow> (out, n))"

definition protect_files_main :: "stdin \<Rightarrow> run" where
  "protect_files_main inp = finish (protect_files_body inp)"

section \<open>Regular expressions\<close>

text \<open>
  The fragment of Python's \<open>re\<close> syntax that the rule tables use. A class is a list
  of inclusive ranges of code points, negated when the flag is set; \<open>Space\<close> is
  \<open>\s\<close> and \<open>WordB\<close> is \<open>\b\<close>.
\<close>

datatype rx =
    Eps
  | Chr nat
  | Cls bool "(nat \<times> nat) list"
  | Space
  | WordB
  | Seq rx rx
  | Alt rx rx
  | Star rx

text \<open>A compiled pattern: the flag \<open>(?i)\<close> and the expression.\<close>

type_synonym pattern = "bool \<times> rx"

text \<open>Derived forms: a literal string, \<open>r?\<close>, \<open>r+\<close>, \<open>r{n}\<close>, \<open>r{n,}\<close>.\<close>

definition lit :: "string \<Rightarrow> rx" where
  "lit s = foldr (\<lambda>c r. Seq (Chr (of_char c)) r) s Eps"

definition seqs :: "rx list \<Rightarrow> rx" where
  "seqs rs = foldr Seq rs Eps"

definition opt :: "rx \<Rightarrow> rx" where
  "opt r = Alt r Eps"

definition plus :: "rx \<Rightarrow> rx" where
  "plus r = Seq r (Star r)"

primrec rep :: "nat \<Rightarrow> rx \<Rightarrow> rx" where
  "rep 0 r = Eps"
| "rep (Suc n) r = Seq r (rep n r)"

definition rep_min :: "nat \<Rightarrow> rx \<Rightarrow> rx" where
  "rep_min n r = Seq (rep n r) (Star r)"

definition rng :: "char \<Rightarrow> char \<Rightarrow> nat \<times> nat" where
  "rng a b = (of_char a, of_char b)"

definition one :: "char \<Rightarrow> nat \<times> nat" where
  "one a = (of_char a, of_char a)"

text \<open>
  Character tests, as \<open>re\<close> makes them on a \<open>str\<close> pattern. \<open>is_space\<close> is
  the table of \<open>str.isspace\<close>, which \<open>\s\<close> uses. \<open>is_word\<close> is \<open>\w\<close>:
  the underscore and what \<open>str.isalnum\<close> accepts.
\<close>

definition is_space :: "nat \<Rightarrow> bool" where
  "is_space c = ((9 \<le> c \<and> c \<le> 13) \<or> (28 \<le> c \<and> c \<le> 32) \<or> c = 133 \<or> c = 160
     \<or> c = 5760 \<or> (8192 \<le> c \<and> c \<le> 8202) \<or> c = 8232 \<or> c = 8233 \<or> c = 8239
     \<or> c = 8287 \<or> c = 12288)"

definition is_word :: "unicode_db \<Rightarrow> nat \<Rightarrow> bool" where
  "is_word U c =
     (if c < 128
      then (48 \<le> c \<and> c \<le> 57) \<or> (65 \<le> c \<and> c \<le> 90) \<or> (97 \<le> c \<and> c \<le> 122) \<or> c = 95
      else isalnum U c)"

text \<open>
  The three functions that the compiler of \<open>re\<close> uses under the flag \<open>(?i)\<close>:
  the simple lower case of a code point, whether a code point is cased (its lower case or
  its upper case differs from it), and the code points that count as the same letter as a
  lower-case one. On ASCII the letters are cased, \<open>A\<close> to \<open>Z\<close> have the lower case
  \<open>a\<close> to \<open>z\<close>, and the table of further letters has two entries: the dotless i
  (305) for \<open>i\<close> and the long s (383) for \<open>s\<close>.
\<close>

definition sre_lower :: "unicode_db \<Rightarrow> nat \<Rightarrow> nat" where
  "sre_lower U c = (if c < 128 then lower_cp c else unicode_tolower U c)"

definition sre_iscased :: "unicode_db \<Rightarrow> nat \<Rightarrow> bool" where
  "sre_iscased U c =
     (if c < 128 then (65 \<le> c \<and> c \<le> 90) \<or> (97 \<le> c \<and> c \<le> 122) else unicode_iscased U c)"

definition sre_fixes :: "unicode_db \<Rightarrow> nat \<Rightarrow> nat list" where
  "sre_fixes U c =
     (if c = 105 then [305] else if c = 115 then [383]
      else if c < 128 then [] else ignorecase_fixes U c)"

text \<open>
  A literal. Without the flag it matches itself. Under \<open>(?i)\<close> a literal that is not
  cased matches itself; for a cased literal the lower case of the character is compared
  with the lower case of the literal and with the further letters of that lower case.
\<close>

definition chr_match :: "unicode_db \<Rightarrow> bool \<Rightarrow> nat \<Rightarrow> nat \<Rightarrow> bool" where
  "chr_match U ic a c =
     (if ic \<and> sre_iscased U a
      then sre_lower U c = sre_lower U a \<or> sre_lower U c \<in> set (sre_fixes U (sre_lower U a))
      else c = a)"

text \<open>
  A class. Without the flag the character is looked up in the ranges. Under \<open>(?i)\<close>
  the class is compiled into the set of the lower cases of its members and their further
  letters; when some member of the class is cased, the lower case of the character is
  looked up in that set, otherwise the character itself. A negated class gives the
  opposite answer.
\<close>

definition in_cls :: "bool \<Rightarrow> (nat \<times> nat) list \<Rightarrow> nat \<Rightarrow> bool" where
  "in_cls neg rs c = ((\<exists>(lo, hi) \<in> set rs. lo \<le> c \<and> c \<le> hi) \<noteq> neg)"

definition cls_members :: "(nat \<times> nat) list \<Rightarrow> nat list" where
  "cls_members rs = concat (map (\<lambda>(lo, hi). [lo..<Suc hi]) rs)"

definition cls_lowered :: "unicode_db \<Rightarrow> (nat \<times> nat) list \<Rightarrow> nat list" where
  "cls_lowered U rs =
     concat (map (\<lambda>x. sre_lower U x # sre_fixes U (sre_lower U x)) (cls_members rs))"

definition cls_match :: "unicode_db \<Rightarrow> bool \<Rightarrow> bool \<Rightarrow> (nat \<times> nat) list \<Rightarrow> nat \<Rightarrow> bool" where
  "cls_match U ic neg rs c =
     (if ic
      then ((if list_ex (sre_iscased U) (cls_members rs) then sre_lower U c else c)
              \<in> set (cls_lowered U rs)) \<noteq> neg
      else in_cls neg rs c)"

text \<open>
  A position in the subject string: the character before it, if any, and the rest of the
  string from it on.
\<close>

type_synonym cursor = "nat option \<times> ustr"

definition advance :: "cursor \<Rightarrow> bool \<Rightarrow> cursor list" where
  "advance cur ok = (case snd cur of [] \<Rightarrow> [] | c # cs \<Rightarrow> if ok then [(Some c, cs)] else [])"

definition at_boundary :: "unicode_db \<Rightarrow> cursor \<Rightarrow> bool" where
  "at_boundary U cur =
     ((case fst cur of None \<Rightarrow> False | Some p \<Rightarrow> is_word U p)
        \<noteq> (case snd cur of [] \<Rightarrow> False | c # cs \<Rightarrow> is_word U c))"

text \<open>
  The positions after zero or more rounds of \<open>step\<close>. A round that consumes nothing
  reaches no new position, so only rounds that shorten the rest are followed, and there
  are at most as many of them as the rest is long.
\<close>

fun star_ends :: "(cursor \<Rightarrow> cursor list) \<Rightarrow> nat \<Rightarrow> cursor \<Rightarrow> cursor list" where
  "star_ends step 0 cur = [cur]"
| "star_ends step (Suc n) cur =
     cur # concat (map (star_ends step n)
                     (filter (\<lambda>q. length (snd q) < length (snd cur)) (step cur)))"

text \<open>
  \<open>ends U ic r cur\<close>: every position at which a match of \<open>r\<close> begun at \<open>cur\<close> can
  end.
\<close>

fun ends :: "unicode_db \<Rightarrow> bool \<Rightarrow> rx \<Rightarrow> cursor \<Rightarrow> cursor list" where
  "ends U ic Eps cur = [cur]"
| "ends U ic (Chr a) cur =
     advance cur (case snd cur of [] \<Rightarrow> False | c # cs \<Rightarrow> chr_match U ic a c)"
| "ends U ic (Cls neg rs) cur =
     advance cur (case snd cur of [] \<Rightarrow> False | c # cs \<Rightarrow> cls_match U ic neg rs c)"
| "ends U ic Space cur = advance cur (case snd cur of [] \<Rightarrow> False | c # cs \<Rightarrow> is_space c)"
| "ends U ic WordB cur = (if at_boundary U cur then [cur] else [])"
| "ends U ic (Seq r1 r2) cur = remdups (concat (map (ends U ic r2) (ends U ic r1 cur)))"
| "ends U ic (Alt r1 r2) cur = remdups (ends U ic r1 cur @ ends U ic r2 cur)"
| "ends U ic (Star r) cur = remdups (star_ends (ends U ic r) (length (snd cur)) cur)"

text \<open>
  \<open>re.search\<close> finds a match (and \<open>re.findall\<close> returns a non-empty list) exactly
  when a match begins at some position of the string.
\<close>

fun search_from :: "unicode_db \<Rightarrow> pattern \<Rightarrow> nat option \<Rightarrow> ustr \<Rightarrow> bool" where
  "search_from U pat prev [] = (ends U (fst pat) (snd pat) (prev, []) \<noteq> [])"
| "search_from U pat prev (c # cs) =
     (ends U (fst pat) (snd pat) (prev, c # cs) \<noteq> [] \<or> search_from U pat (Some c) cs)"

definition re_search :: "unicode_db \<Rightarrow> pattern \<Rightarrow> ustr \<Rightarrow> bool" where
  "re_search U pat s = search_from U pat None s"

text \<open>
  What the matcher is to compute, as a relation between positions: \<open>sem U ic r cur\<close> is
  the set of positions at which a match of \<open>r\<close> begun at \<open>cur\<close> ends, with sequence
  as composition, alternation as union and the star as reflexive transitive closure. The
  Properties section shows that \<open>ends\<close> lists exactly this set.
\<close>

primrec sem :: "unicode_db \<Rightarrow> bool \<Rightarrow> rx \<Rightarrow> cursor \<Rightarrow> cursor set" where
  "sem U ic Eps cur = {cur}"
| "sem U ic (Chr a) cur =
     (case snd cur of [] \<Rightarrow> {} | c # cs \<Rightarrow> if chr_match U ic a c then {(Some c, cs)} else {})"
| "sem U ic (Cls neg rs) cur =
     (case snd cur of [] \<Rightarrow> {}
      | c # cs \<Rightarrow> if cls_match U ic neg rs c then {(Some c, cs)} else {})"
| "sem U ic Space cur =
     (case snd cur of [] \<Rightarrow> {} | c # cs \<Rightarrow> if is_space c then {(Some c, cs)} else {})"
| "sem U ic WordB cur = (if at_boundary U cur then {cur} else {})"
| "sem U ic (Seq r1 r2) cur = (\<Union>mid \<in> sem U ic r1 cur. sem U ic r2 mid)"
| "sem U ic (Alt r1 r2) cur = sem U ic r1 cur \<union> sem U ic r2 cur"
| "sem U ic (Star r) cur = {cur'. (cur, cur') \<in> {(x, y). y \<in> sem U ic r x}\<^sup>*}"

section \<open>security-check.py\<close>

text \<open>Character classes that the patterns share.\<close>

definition alnum :: "(nat \<times> nat) list" where
  "alnum = [rng CHR ''a'' CHR ''z'', rng CHR ''A'' CHR ''Z'', rng CHR ''0'' CHR ''9'']"

definition sep :: rx where
  "sep = opt (Cls False [one CHR ''_'', one CHR ''-''])"

definition assign :: rx where
  "assign = seqs [Star Space, Cls False [one CHR '':'', one CHR ''=''], Star Space]"

definition quote :: "(nat \<times> nat) list" where
  "quote = [(34, 34), (39, 39)]"

definition env_hint :: "string \<Rightarrow> ustr" where
  "env_hint v = u ''Move to .env file and use environment variables (e.g., process.env.'' @ u v @ u '')''"

text \<open>
  \<open>SECRET_PATTERNS\<close>, in the order of the source. The regular expressions are
  \<^verbatim>\<open>(?i)(api[_-]?key|apikey)\s*[:=]\s*["']?[a-zA-Z0-9_-]{20,}\<close>,
  \<^verbatim>\<open>(?i)(secret|password|passwd|pwd)\s*[:=]\s*["'][^"']+["']\<close>,
  \<^verbatim>\<open>(?i)bearer\s+[a-zA-Z0-9_-]{20,}\<close>,
  \<^verbatim>\<open>ghp_[a-zA-Z0-9]{36}\<close>,
  \<^verbatim>\<open>github_pat_[a-zA-Z0-9]{22}_[a-zA-Z0-9]{59}\<close>,
  \<^verbatim>\<open>sk-[a-zA-Z0-9]{48}\<close>,
  \<^verbatim>\<open>sk-ant-[a-zA-Z0-9-]{90,}\<close>,
  \<^verbatim>\<open>-----BEGIN (?:RSA |EC |DSA )?PRIVATE KEY-----\<close>,
  \<^verbatim>\<open>(?i)aws[_-]?access[_-]?key[_-]?id\s*[:=]\s*[A-Z0-9]{20}\<close> and
  \<^verbatim>\<open>(?i)aws[_-]?secret[_-]?access[_-]?key\s*[:=]\s*[a-zA-Z0-9/+=]{40}\<close>.
\<close>

definition SECRET_PATTERNS :: "(pattern \<times> ustr \<times> ustr) list" where
  "SECRET_PATTERNS =
   [((True, seqs [Alt (seqs [lit ''api'', sep, lit ''key'']) (lit ''apikey''), assign,
                  opt (Cls False quote),
                  rep_min 20 (Cls False (alnum @ [one CHR ''_'', one CHR ''-'']))]),
     u ''API key'', env_hint ''API_KEY''),
    ((True, seqs [Alt (lit ''secret'') (Alt (lit ''password'') (Alt (lit ''passwd'') (lit ''pwd''))),
                  assign, Cls False quote, plus (Cls True quote), Cls False quote]),
     u ''Password/Secret'',
     u ''Use environment variables or a .env file, never hardcode credentials''),
    ((True, seqs [lit ''bearer'', plus Space,
                  rep_min 20 (Cls False (alnum @ [one CHR ''_'', one CHR ''-'']))]),
     u ''Bearer token'', env_hint ''AUTH_TOKEN''),
    ((False, seqs [lit ''ghp_'', rep 36 (Cls False alnum)]),
     u ''GitHub Personal Access Token'', env_hint ''GITHUB_TOKEN''),
    ((False, seqs [lit ''github_pat_'', rep 22 (Cls False alnum), lit ''_'', rep 59 (Cls False alnum)]),
     u ''GitHub PAT (fine-grained)'', env_hint ''GITHUB_TOKEN''),
    ((False, seqs [lit ''sk-'', rep 48 (Cls False alnum)]),
     u ''OpenAI API Key'', env_hint ''OPENAI_API_KEY''),
    ((False, seqs [lit ''sk-ant-'', rep_min 90 (Cls False (alnum @ [one CHR ''-'']))]),
     u ''Anthropic API Key'', env_hint ''ANTHROPIC_API_KEY''),
    ((False, seqs [lit ''-----BEGIN '',
                   opt (Alt (lit ''RSA '') (Alt (lit ''EC '') (lit ''DSA ''))),
                   lit ''PRIVATE KEY-----'']),
     u ''Private key'',
     u ''Store in a secrets manager (AWS Secrets Manager, Vault, etc.) '' @ [8212]
       @ u '' never commit private keys''),
    ((True, seqs [lit ''aws'', sep, lit ''access'', sep, lit ''key'', sep, lit ''id'', assign,
                  rep 20 (Cls False [rng CHR ''A'' CHR ''Z'', rng CHR ''0'' CHR ''9''])]),
     u ''AWS Access Key'', env_hint ''AWS_ACCESS_KEY_ID''),
    ((True, seqs [lit ''aws'', sep, lit ''secret'', sep, lit ''access'', sep, lit ''key'', assign,
                  rep 40 (Cls False (alnum @ [one CHR ''/'', one CHR ''+'', one CHR ''='']))]),
     u ''AWS Secret Key'', env_hint ''AWS_SECRET_ACCESS_KEY'')]"

definition SKIP_FILES :: "ustr list" where
  "SKIP_FILES = [u ''.env.example'', u ''.env.template'', u ''.env.sample'',
                 u ''package-lock.json'', u ''yarn.lock'', u ''pnpm-lock.yaml'']"

text \<open>The loop of \<open>check_for_secrets\<close> over the patterns.\<close>

fun secret_issues ::
  "unicode_db \<Rightarrow> (pattern \<times> ustr \<times> ustr) list \<Rightarrow> ustr \<Rightarrow> ustr list" where
  "secret_issues U [] content = []"
| "secret_issues U ((pat, secret_type, remediation) # rules) content =
     (if re_search U pat content
      then (u ''Potential '' @ secret_type @ u '' detected '' @ [8594, 32] @ remediation)
             # secret_issues U rules content
      else secret_issues U rules content)"

text \<open>
  The two tests at the head of \<open>check_for_secrets\<close>, each of which returns the empty
  list of issues: the basename is in \<open>SKIP_FILES\<close>, or the lower-cased path contains
  \<open>test\<close> or \<open>spec\<close>.
\<close>

definition secret_scan_skipped :: "unicode_db \<Rightarrow> ustr \<Rightarrow> bool" where
  "secret_scan_skipped U file_path =
     (if basename file_path \<in> set SKIP_FILES then True
      else if contains (u ''test'') (lower U file_path)
                \<or> contains (u ''spec'') (lower U file_path)
      then True
      else False)"

text \<open>
  \<open>check_for_secrets(content, file_path)\<close> for a \<open>file_path\<close> that is a \<open>str\<close>.
  The content is first looked at by \<open>re.findall\<close>, which raises \<open>TypeError\<close> for
  anything but a string.
\<close>

definition check_for_secrets :: "unicode_db \<Rightarrow> json \<Rightarrow> ustr \<Rightarrow> py_exn + ustr list" where
  "check_for_secrets U content file_path =
     (if secret_scan_skipped U file_path then Inr []
      else (case content of
              JStr c \<Rightarrow> Inr (secret_issues U SECRET_PATTERNS c)
            | _ \<Rightarrow> Inl TypeError))"

text \<open>
  The body of the \<open>try\<close> of \<open>main\<close>. \<open>check_for_secrets\<close> begins with
  \<open>os.path.basename(file_path)\<close>, which raises \<open>TypeError\<close> when \<open>file_path\<close> is
  not a \<open>str\<close>. The calls of \<open>print\<close> are inside the \<open>try\<close>, before
  \<open>sys.exit(2)\<close>.
\<close>

definition security_check_body :: "unicode_db \<Rightarrow> stdin \<Rightarrow> ustr list \<times> unit outcome" where
  "security_check_body U inp =
     (case inp of
        Malformed \<Rightarrow> ([], Raises JSONDecodeError)
      | Parsed input_data \<Rightarrow>
         (case py_get input_data (u ''tool_input'') (JObj []) of
            Inl e \<Rightarrow> ([], Raises e)
          | Inr tool_input \<Rightarrow>
             (case py_get tool_input (u ''file_path'') (JStr []) of
                Inl e \<Rightarrow> ([], Raises e)
              | Inr fp \<Rightarrow>
                 (case tool_content tool_input of
                    Inl e \<Rightarrow> ([], Raises e)
                  | Inr content \<Rightarrow>
                     if \<not> truthy fp \<or> \<not> truthy content then ([], Exits 0)
                     else (case fp of
                            JStr file_path \<Rightarrow>
                              (case check_for_secrets U content file_path of
                                 Inl e \<Rightarrow> ([], Raises e)
                               | Inr issues \<Rightarrow>
                                   if issues \<noteq> [] then
                                     print_lines
                                       ([[128683] @ u '' BLOCKED - Security issue detected in ''
                                           @ file_path @ u '':'']
                                        @ map (\<lambda>issue. u ''  - '' @ issue) issues
                                        @ [[10] @ u ''This edit has been BLOCKED to prevent committing secrets.'',
                                           u ''If this is a false positive, review and adjust the patterns in security-check.py'',
                                           u ''See security-patterns skill for secure credential management.''])
                                       (Exits 2)
                                   else ([], Returns ()))
                          | _ \<Rightarrow> ([], Raises TypeError))))))"

definition security_check_main :: "unicode_db \<Rightarrow> stdin \<Rightarrow> run" where
  "security_check_main U inp = finish (security_check_body U inp)"

section \<open>pre-commit-check.py\<close>

definition logger_hint :: ustr where
  "logger_hint = u ''Remove before commit, or use a proper logger (e.g., winston, pino)''"

definition call :: rx where
  "call = seqs [Star Space, Chr 40]"

text \<open>
  \<open>DEBUG_PATTERNS\<close>:
  \<^verbatim>\<open>\bconsole\.log\s*\(\<close>, \<^verbatim>\<open>\bconsole\.debug\s*\(\<close>, \<^verbatim>\<open>\bdebugger\b\<close>,
  \<^verbatim>\<open>\bbreakpoint\s*\(\<close> and \<^verbatim>\<open>\bpdb\.set_trace\s*\(\<close>.
\<close>

definition DEBUG_PATTERNS :: "(pattern \<times> ustr \<times> ustr) list" where
  "DEBUG_PATTERNS =
   [((False, seqs [WordB, lit ''console.log'', call]), u ''console.log'', logger_hint),
    ((False, seqs [WordB, lit ''console.debug'', call]), u ''console.debug'', logger_hint),
    ((False, seqs [WordB, lit ''debugger'', WordB]), u ''debugger statement'',
     u ''Remove before commit '' @ [8212] @ u '' debugger statements pause execution in production''),
    ((False, seqs [WordB, lit ''breakpoint'', call]), u ''breakpoint()'',
     u ''Remove before commit '' @ [8212] @ u '' use a conditional breakpoint or logging instead''),
    ((False, seqs [WordB, lit ''pdb.set_trace'', call]), u ''pdb.set_trace()'',
     u ''Remove before commit, or use a proper logger (e.g., logging module)'')]"

text \<open>\<open>TEMP_MARKERS\<close>: \<^verbatim>\<open>\bFIXME\b\<close>, \<^verbatim>\<open>\bHACK\b\<close> and \<^verbatim>\<open>\bXXX\b\<close>.\<close>

definition TEMP_MARKERS :: "(pattern \<times> ustr \<times> ustr) list" where
  "TEMP_MARKERS =
   [((False, seqs [WordB, lit ''FIXME'', WordB]), u ''FIXME'',
     u ''Address the issue or convert to a tracked GitHub issue''),
    ((False, seqs [WordB, lit ''HACK'', WordB]), u ''HACK'',
     u ''Refactor the workaround or document why it is necessary in a comment''),
    ((False, seqs [WordB, lit ''XXX'', WordB]), u ''XXX'',
     u ''Resolve the concern or convert to a tracked GitHub issue'')]"

definition MAX_CONTENT_SIZE :: nat where
  "MAX_CONTENT_SIZE = 500 * 1024"

definition SKIP_EXTENSIONS :: "ustr list" where
  "SKIP_EXTENSIONS = [u ''.md'', u ''.markdown'', u ''.txt'', u ''.rst'', u ''.json'', u ''.yml'', u ''.yaml'']"

definition should_skip :: "unicode_db \<Rightarrow> ustr \<Rightarrow> bool" where
  "should_skip U file_path =
     (let basename = lower U (basename file_path);
          ext = lower U (splitext_ext file_path)
      in if ext \<in> set SKIP_EXTENSIONS then True
         else if contains (u ''test'') basename \<or> contains (u ''spec'') basename then True
         else let path_lower = lower U file_path
              in if contains (u ''/tests/'') path_lower \<or> contains (u ''/test/'') path_lower
                      \<or> contains (u ''/__tests__/'') path_lower then True
                 else if contains (u ''example'') path_lower \<or> contains (u ''/examples/'') path_lower
                 then True
                 else False)"

text \<open>
  \<open>len(content.encode('utf-8', errors='replace'))\<close>: the number of bytes of each code
  point in UTF-8; a surrogate, which has no encoding, is replaced by a question mark.
\<close>

definition utf8_width :: "nat \<Rightarrow> nat" where
  "utf8_width c =
     (if c < 128 then 1 else if c < 2048 then 2
      else if 55296 \<le> c \<and> c \<le> 57343 then 1
      else if c < 65536 then 3 else 4)"

definition utf8_len :: "ustr \<Rightarrow> nat" where
  "utf8_len s = sum_list (map utf8_width s)"

text \<open>The two loops of \<open>check_content\<close>.\<close>

fun debug_issues ::
  "unicode_db \<Rightarrow> (pattern \<times> ustr \<times> ustr) list \<Rightarrow> ustr \<Rightarrow> ustr list" where
  "debug_issues U [] content = []"
| "debug_issues U ((pat, name, suggestion) # rules) content =
     (if re_search U pat content
      then (u ''Debug statement found: '' @ name @ [32, 8594, 32] @ suggestion)
             # debug_issues U rules content
      else debug_issues U rules content)"

fun marker_issues ::
  "unicode_db \<Rightarrow> (pattern \<times> ustr \<times> ustr) list \<Rightarrow> ustr \<Rightarrow> ustr list" where
  "marker_issues U [] content = []"
| "marker_issues U ((pat, name, suggestion) # rules) content =
     (if re_search U pat content
      then (u ''Temporary marker found: '' @ name @ [32, 8594, 32] @ suggestion)
             # marker_issues U rules content
      else marker_issues U rules content)"

definition check_content :: "unicode_db \<Rightarrow> ustr \<Rightarrow> ustr list" where
  "check_content U content =
     (let issues = debug_issues U DEBUG_PATTERNS content @ marker_issues U TEMP_MARKERS content;
          content_size = utf8_len content
      in if content_size > MAX_CONTENT_SIZE
         then let size_kb = content_size div 1024
              in issues @ [u ''Large file content: '' @ str_of_nat size_kb @ u ''KB (limit: ''
                            @ str_of_nat (MAX_CONTENT_SIZE div 1024) @ u ''KB) '' @ [8594]
                            @ u '' Consider splitting into smaller modules or extracting data'']
         else issues)"

text \<open>
  The part of \<open>main\<close> after the exemption test. \<open>re.search\<close> raises \<open>TypeError\<close>
  when the content is not a string.
\<close>

definition pre_commit_scan :: "unicode_db \<Rightarrow> json \<Rightarrow> ustr list \<times> unit outcome" where
  "pre_commit_scan U content =
     (case content of
        JStr c \<Rightarrow>
          (let issues = check_content U c
           in if issues \<noteq> [] then
                print_lines
                  ([u ''Quality check - issues detected:'']
                   @ map (\<lambda>issue. u ''  - '' @ issue) issues
                   @ [[10] @ u ''Consider resolving before committing.'']) (Exits 0)
              else ([], Returns ()))
      | _ \<Rightarrow> ([], Raises TypeError))"

text \<open>
  The body of the \<open>try\<close> of \<open>main\<close>. \<open>should_skip\<close> begins with
  \<open>os.path.basename(file_path)\<close>, which raises \<open>TypeError\<close> when \<open>file_path\<close> is
  not a \<open>str\<close>.
\<close>

definition pre_commit_check_body :: "unicode_db \<Rightarrow> stdin \<Rightarrow> ustr list \<times> unit outcome" where
  "pre_commit_check_body U inp =
     (case inp of
        Malformed \<Rightarrow> ([], Raises JSONDecodeError)
      | Parsed input_data \<Rightarrow>
         (case py_get input_data (u ''tool_input'') (JObj []) of
            Inl e \<Rightarrow> ([], Raises e)
          | Inr tool_input \<Rightarrow>
             (case py_get tool_input (u ''file_path'') (JStr []) of
                Inl e \<Rightarrow> ([], Raises e)
              | Inr fp \<Rightarrow>
                 (case tool_content tool_input of
                    Inl e \<Rightarrow> ([], Raises e)
                  | Inr content \<Rightarrow>
                     if \<not> truthy content then ([], Exits 0)
                     else if truthy fp then
                           (case fp of
                              JStr file_path \<Rightarrow>
                                if should_skip U file_path then ([], Exits 0)
                                else pre_commit_scan U content
                            | _ \<Rightarrow> ([], Raises TypeError))
                     else pre_commit_scan U content))))"

definition pre_commit_check_main :: "unicode_db \<Rightarrow> stdin \<Rightarrow> run" where
  "pre_commit_check_main U inp = finish (pre_commit_check_body U inp)"

section \<open>track-metrics.py\<close>

subsection \<open>More string operations\<close>

text \<open>\<open>s.strip()\<close> removes the white space at both ends.\<close>

definition strip :: "ustr \<Rightarrow> ustr" where
  "strip s = rev (dropWhile is_space (rev (dropWhile is_space s)))"

text \<open>\<open>s.split(sep)\<close> for a separator of one character: the pieces between the separators.\<close>

fun split_char :: "nat \<Rightarrow> ustr \<Rightarrow> ustr list" where
  "split_char d [] = [[]]"
| "split_char d (c # cs) =
     (if c = d then [] # split_char d cs
      else (case split_char d cs of
              [] \<Rightarrow> [[c]]
            | piece # pieces \<Rightarrow> (c # piece) # pieces))"

text \<open>\<open>s.split()\<close>: the maximal runs of characters that are not white space.\<close>

fun words_from :: "ustr \<Rightarrow> ustr \<Rightarrow> ustr list" where
  "words_from cur [] = (if cur = [] then [] else [rev cur])"
| "words_from cur (c # cs) =
     (if is_space c then (if cur = [] then words_from [] cs else rev cur # words_from [] cs)
      else words_from (c # cur) cs)"

definition split_words :: "ustr \<Rightarrow> ustr list" where
  "split_words s = words_from [] s"

text \<open>
  \<open>int(s)\<close> on a string: \<open>None\<close> stands for \<open>ValueError\<close>. The string is
  first brought to ASCII: white space from 128 on becomes a space and a decimal digit of
  the Unicode database becomes the ASCII digit of its value. Then the white space of C
  (the characters 9 to 13 and the space) is passed over at both ends, one sign may follow,
  and then come decimal digits, in which single underscores may stand between digits.
  A string with more digits than the limit \<open>sys.get_int_max_str_digits()\<close> is refused
  (the limit is 4300 unless it has been changed; 0 stands for no limit, as it does in
  Python, and for an interpreter that has none; strings of up to 640 digits are never
  refused).
\<close>

definition int_space :: "nat \<Rightarrow> bool" where
  "int_space c = ((9 \<le> c \<and> c \<le> 13) \<or> c = 32 \<or> (128 \<le> c \<and> is_space c))"

definition digit_of :: "unicode_db \<Rightarrow> nat \<Rightarrow> nat option" where
  "digit_of U c =
     (if 48 \<le> c \<and> c \<le> 57 then Some (c - 48)
      else if c < 128 \<or> is_space c then None
      else (case decimal U c of None \<Rightarrow> None | Some d \<Rightarrow> if d < 10 then Some d else None))"

fun digits_val :: "unicode_db \<Rightarrow> nat \<Rightarrow> ustr \<Rightarrow> nat option" where
  "digits_val U acc [] = Some acc"
| "digits_val U acc (c # cs) =
     (case digit_of U c of
        Some d \<Rightarrow> digits_val U (10 * acc + d) cs
      | None \<Rightarrow>
          if c = 95 then
            (case cs of
               [] \<Rightarrow> None
             | c' # cs' \<Rightarrow> if digit_of U c' \<noteq> None then digits_val U acc cs else None)
          else None)"

definition too_many_digits :: "unicode_db \<Rightarrow> nat \<Rightarrow> ustr \<Rightarrow> bool" where
  "too_many_digits U limit s =
     (let digits = length (filter (\<lambda>c. digit_of U c \<noteq> None) s)
      in 640 < digits \<and> 0 < limit \<and> limit < digits)"

definition py_nat :: "unicode_db \<Rightarrow> nat \<Rightarrow> ustr \<Rightarrow> nat option" where
  "py_nat U limit s =
     (case s of
        [] \<Rightarrow> None
      | c # cs \<Rightarrow>
          if digit_of U c = None then None
          else if too_many_digits U limit s then None
          else digits_val U 0 s)"

definition py_int :: "unicode_db \<Rightarrow> nat \<Rightarrow> ustr \<Rightarrow> int option" where
  "py_int U limit s =
     (case rev (dropWhile int_space (rev (dropWhile int_space s))) of
        [] \<Rightarrow> None
      | c # cs \<Rightarrow>
          if c = 45 then map_option (\<lambda>n. - int n) (py_nat U limit cs)
          else if c = 43 then map_option int (py_nat U limit cs)
          else map_option int (py_nat U limit (c # cs)))"

text \<open>\<open>str(i)\<close> for an integer.\<close>

definition str_of_int :: "int \<Rightarrow> ustr" where
  "str_of_int i = (if i < 0 then 45 # str_of_nat (nat (- i)) else str_of_nat (nat i))"

text \<open>\<open>os.path.join(a, b)\<close> (posixpath) for two components.\<close>

definition path_join :: "ustr \<Rightarrow> ustr \<Rightarrow> ustr" where
  "path_join a b =
     (if starts_with [47] b then b
      else if a = [] \<or> last a = 47 then a @ b
      else a @ [47] @ b)"

subsection \<open>\<open>json.dumps\<close>\<close>

text \<open>
  The values of the dictionary that the hook writes: strings, integers and \<open>None\<close>.
  \<open>json.dumps\<close> with its default \<open>ensure_ascii=True\<close> writes every character
  outside the range from the space to the tilde as an escape, code points from 65536 on as
  a pair of surrogates; the separators are \<open>", "\<close> and \<open>": "\<close>.
\<close>

datatype pyval = PStr ustr | PInt int | PNone

definition hex_digit :: "nat \<Rightarrow> nat" where
  "hex_digit d = (if d < 10 then 48 + d else 87 + d)"

definition hex4 :: "nat \<Rightarrow> ustr" where
  "hex4 n = [hex_digit (n div 4096 mod 16), hex_digit (n div 256 mod 16),
             hex_digit (n div 16 mod 16), hex_digit (n mod 16)]"

definition json_escape :: "nat \<Rightarrow> ustr" where
  "json_escape c =
     (if c = 34 then [92, 34]
      else if c = 92 then [92, 92]
      else if c = 10 then [92, 110]
      else if c = 13 then [92, 114]
      else if c = 9 then [92, 116]
      else if c = 8 then [92, 98]
      else if c = 12 then [92, 102]
      else if 32 \<le> c \<and> c \<le> 126 then [c]
      else if c < 65536 then [92, 117] @ hex4 c
      else [92, 117] @ hex4 (55296 + (c - 65536) div 1024)
           @ [92, 117] @ hex4 (56320 + (c - 65536) mod 1024))"

definition dumps_str :: "ustr \<Rightarrow> ustr" where
  "dumps_str s = [34] @ concat (map json_escape s) @ [34]"

fun dumps_val :: "pyval \<Rightarrow> ustr" where
  "dumps_val (PStr s) = dumps_str s"
| "dumps_val (PInt i) = str_of_int i"
| "dumps_val PNone = u ''null''"

fun dumps_items :: "(ustr \<times> pyval) list \<Rightarrow> ustr" where
  "dumps_items [] = []"
| "dumps_items [(k, v)] = dumps_str k @ u '': '' @ dumps_val v"
| "dumps_items ((k, v) # kv # kvs) =
     dumps_str k @ u '': '' @ dumps_val v @ u '', '' @ dumps_items (kv # kvs)"

definition json_dumps :: "(ustr \<times> pyval) list \<Rightarrow> ustr" where
  "json_dumps entry = u ''{'' @ dumps_items entry @ u ''}''"

subsection \<open>The environment of the hook\<close>

text \<open>
  What \<open>subprocess.run(cmd, capture_output=True, text=True, timeout=timeout,
  cwd=os.getcwd())\<close> does: it raises (the program is missing, the time is over, the
  output cannot be decoded), or it completes with a return code and a standard output.
\<close>

datatype proc = Fails | Completes int ustr

text \<open>
  The environment of one invocation: the outcome of each command, the string that
  \<open>datetime.now(timezone.utc).isoformat()\<close> returns, the value of the environment
  variable \<open>CLAUDE_PROJECT_DIR\<close> if it is set, the working directory if
  \<open>os.getcwd()\<close> succeeds, whether \<open>os.makedirs(dir, exist_ok=True)\<close> and the
  opening of a file for appending, with the write that follows, succeed, and the limit
  \<open>sys.get_int_max_str_digits()\<close> of the interpreter.
\<close>

record env =
  subprocess_run :: "ustr list \<Rightarrow> proc"
  now_isoformat :: ustr
  CLAUDE_PROJECT_DIR :: "ustr option"
  getcwd :: "ustr option"
  makedirs_ok :: "ustr \<Rightarrow> bool"
  append_ok :: "ustr \<Rightarrow> bool"
  int_max_str_digits :: nat

text \<open>The files: the text of each file that exists.\<close>

type_synonym files = "ustr \<rightharpoonup> ustr"

definition run_command :: "env \<Rightarrow> ustr list \<Rightarrow> bool \<times> ustr" where
  "run_command e cmd =
     (case subprocess_run e cmd of
        Fails \<Rightarrow> (False, [])
      | Completes returncode out \<Rightarrow> (returncode = 0, strip out))"

text \<open>The loop of \<open>get_files_changed\<close> over the parts of the summary line.\<close>

fun files_changed_in :: "unicode_db \<Rightarrow> nat \<Rightarrow> ustr list \<Rightarrow> int" where
  "files_changed_in U limit [] = 0"
| "files_changed_in U limit (part # parts) =
     (let part = strip part
      in if contains (u ''file'') part \<and> contains (u ''changed'') part then
           (case split_words part of
              [] \<Rightarrow> 0
            | w # ws \<Rightarrow> (case py_int U limit w of None \<Rightarrow> 0 | Some n \<Rightarrow> n))
         else files_changed_in U limit parts)"

definition get_files_changed :: "unicode_db \<Rightarrow> env \<Rightarrow> int" where
  "get_files_changed U e =
     (case run_command e [u ''git'', u ''diff'', u ''--stat'', u ''HEAD''] of
        (success, out) \<Rightarrow>
          if \<not> success \<or> out = [] then 0
          else let lines = split_char 10 (strip out)
               in if lines = [] then 0
                  else files_changed_in U (int_max_str_digits e) (split_char 44 (last lines)))"

definition get_latest_commit :: "env \<Rightarrow> ustr" where
  "get_latest_commit e =
     (case run_command e [u ''git'', u ''log'', u ''--oneline'', u ''-1''] of
        (success, out) \<Rightarrow> if success \<and> out \<noteq> [] then out else [])"

text \<open>The dictionary \<open>entry\<close> of \<open>main\<close>.\<close>

definition metrics_entry :: "unicode_db \<Rightarrow> env \<Rightarrow> (ustr \<times> pyval) list" where
  "metrics_entry U e =
     (let timestamp = now_isoformat e;
          files_changed = get_files_changed U e;
          latest_commit = get_latest_commit e
      in [(u ''timestamp'', PStr timestamp),
          (u ''files_changed'', PInt files_changed),
          (u ''commit'', if latest_commit \<noteq> [] then PStr latest_commit else PNone),
          (u ''duration_hint'', PStr (u ''completed''))])"

definition metrics_file_of :: "ustr \<Rightarrow> ustr" where
  "metrics_file_of project_dir =
     path_join (path_join project_dir (u ''.claude'')) (u ''agent-metrics.jsonl'')"

text \<open>
  \<open>main\<close>: standard input is read and not used; an exception in the body (from
  \<open>os.getcwd\<close>, \<open>os.makedirs\<close>, the opening of the file or the write) is passed over;
  the exit status is 0. The result is the files after the run and the exit status.
\<close>

definition track_metrics_main ::
  "unicode_db \<Rightarrow> env \<Rightarrow> files \<Rightarrow> stdin \<Rightarrow> files \<times> nat" where
  "track_metrics_main U e fs inp =
     (let entry = metrics_entry U e
      in case getcwd e of
           None \<Rightarrow> (fs, 0)
         | Some cwd \<Rightarrow>
             let project_dir = (case CLAUDE_PROJECT_DIR e of None \<Rightarrow> cwd | Some d \<Rightarrow> d);
                 metrics_dir = path_join project_dir (u ''.claude'');
                 metrics_file = path_join metrics_dir (u ''agent-metrics.jsonl'')
             in if \<not> makedirs_ok e metrics_dir then (fs, 0)
                else if \<not> append_ok e metrics_file then (fs, 0)
                else (fs(metrics_file \<mapsto>
                          (case fs metrics_file of None \<Rightarrow> [] | Some old \<Rightarrow> old)
                            @ json_dumps entry @ [10]), 0))"

section \<open>The eligibility filter in the words of the specification\<close>

text \<open>
  Section 4.1 of the specification, for comparison with the filters of the code: a path
  is exempt when its extension is in the exemption set, or its file name, in lower case,
  contains \<open>test\<close> or \<open>spec\<close>, or one of its segments is \<open>tests\<close>, \<open>test\<close>,
  \<open>__tests__\<close> or \<open>examples\<close>, or its basename is one of the example files for the
  environment.
\<close>

definition spec_env_allow_list :: "ustr list" where
  "spec_env_allow_list = [u ''.env.example'', u ''.env.template'', u ''.env.sample'']"

definition spec_exempt_segments :: "ustr list" where
  "spec_exempt_segments = [u ''tests'', u ''test'', u ''__tests__'', u ''examples'']"

definition spec_exempt :: "unicode_db \<Rightarrow> ustr \<Rightarrow> bool" where
  "spec_exempt U p =
     (lower U (splitext_ext p) \<in> set SKIP_EXTENSIONS
      \<or> contains (u ''test'') (lower U (basename p))
      \<or> contains (u ''spec'') (lower U (basename p))
      \<or> list_ex (\<lambda>seg. seg \<in> set spec_exempt_segments) (split_char 47 p)
      \<or> basename p \<in> set spec_env_allow_list)"

section \<open>Properties\<close>

subsection \<open>Auxiliary facts\<close>

lemma first_match_mem: "first_match p ps = Some b \<Longrightarrow> b \<in> set ps"
  by (induction ps) (auto split: if_splits)

lemma protected_nonempty: "b \<in> set PROTECTED_PATTERNS \<Longrightarrow> b \<noteq> []"
  by (auto simp: PROTECTED_PATTERNS_def PROTECTED_PATTERNS_WITH_REASONS_def u_def)

lemma empty_not_protected: "matches_pattern [] PROTECTED_PATTERNS = None"
  by (simp add: matches_pattern_def lstrip_def PROTECTED_PATTERNS_def
        PROTECTED_PATTERNS_WITH_REASONS_def u_def basename_def)

lemma secret_issues_nonempty:
  "secret_issues U rules c \<noteq> [] \<longleftrightarrow> (\<exists>rule \<in> set rules. re_search U (fst rule) c)"
  by (induction U rules c rule: secret_issues.induct) auto

subsection \<open>Printing\<close>

text \<open>
  A sequence of prints writes all its lines when each of them can be encoded; otherwise
  it writes the lines before the first that cannot, and raises.
\<close>

lemma print_lines_eq:
  "print_lines lines fin =
     (if list_all encodable lines then (lines, fin)
      else (takeWhile encodable lines, Raises UnicodeEncodeError))"
  by (induction lines) auto

lemma encodable_Nil: "encodable []"
  by (simp add: encodable_def)

lemma encodable_Cons: "encodable (c # s) \<longleftrightarrow> \<not> is_surrogate c \<and> encodable s"
  by (simp add: encodable_def)

lemma encodable_append: "encodable (a @ b) \<longleftrightarrow> encodable a \<and> encodable b"
  by (simp add: encodable_def)

lemma encodable_u: "encodable (u s)"
proof -
  have lt: "(of_char c :: nat) < 256" for c :: char
  proof -
    have "(of_char c :: nat) mod 256 < 256" by simp
    then show ?thesis by (simp only: of_char_mod_256)
  qed
  have "\<not> is_surrogate (of_char c)" for c :: char
  proof -
    have "(of_char c :: nat) < 55296" using lt [of c] by (rule less_trans) simp
    then show ?thesis unfolding is_surrogate_def by linarith
  qed
  then show ?thesis by (simp add: encodable_def u_def list_all_iff)
qed

lemma encodable_printable: "set s \<subseteq> {32..126} \<Longrightarrow> encodable s"
  by (auto simp: encodable_def list_all_iff is_surrogate_def)

lemmas encodable_simps = encodable_Nil encodable_Cons encodable_append encodable_u
  is_surrogate_def

lemma issue_lines_encodable:
  "list_all encodable (map (\<lambda>issue. u ''  - '' @ issue) issues) = list_all encodable issues"
  by (induction issues) (simp_all add: encodable_simps)

lemma protected_encodable:
  "matches_pattern file_path PROTECTED_PATTERNS = Some blocked \<Longrightarrow> encodable blocked"
proof -
  assume "matches_pattern file_path PROTECTED_PATTERNS = Some blocked"
  then have "blocked \<in> set PROTECTED_PATTERNS"
    using first_match_mem by (simp add: matches_pattern_def)
  then show ?thesis
    by (auto simp: PROTECTED_PATTERNS_def PROTECTED_PATTERNS_WITH_REASONS_def encodable_u)
qed

lemma warned_encodable:
  "matches_pattern file_path WARN_PATTERNS = Some warned \<Longrightarrow> encodable warned"
proof -
  assume "matches_pattern file_path WARN_PATTERNS = Some warned"
  then have "warned \<in> set WARN_PATTERNS"
    using first_match_mem by (simp add: matches_pattern_def)
  then show ?thesis
    by (auto simp: WARN_PATTERNS_def encodable_u)
qed

lemma warned_nonempty:
  "matches_pattern file_path WARN_PATTERNS = Some warned \<Longrightarrow> warned \<noteq> []"
proof -
  assume "matches_pattern file_path WARN_PATTERNS = Some warned"
  then have "warned \<in> set WARN_PATTERNS"
    using first_match_mem by (simp add: matches_pattern_def)
  then show ?thesis
    by (auto simp: WARN_PATTERNS_def u_def)
qed

lemma reason_encodable:
  "encodable (case PROTECTED_REASONS blocked of
                None \<Rightarrow> u ''This file is protected from edits'' | Some r \<Rightarrow> r)"
proof (cases "PROTECTED_REASONS blocked")
  case None
  then show ?thesis by (simp add: encodable_u)
next
  case (Some r)
  then have "(blocked, r) \<in> set PROTECTED_PATTERNS_WITH_REASONS"
    using map_of_SomeD [of "rev PROTECTED_PATTERNS_WITH_REASONS" blocked r]
    by (simp add: PROTECTED_REASONS_def)
  then have "encodable r"
    by (auto simp: PROTECTED_PATTERNS_WITH_REASONS_def encodable_simps)
  with Some show ?thesis by simp
qed

lemma secret_lines_encodable:
  "list_all (\<lambda>(pat, a, b). encodable a \<and> encodable b) rules
     \<Longrightarrow> list_all encodable (secret_issues U rules c)"
  by (induction U rules c rule: secret_issues.induct) (auto simp: encodable_simps)

lemma debug_lines_encodable:
  "list_all (\<lambda>(pat, a, b). encodable a \<and> encodable b) rules
     \<Longrightarrow> list_all encodable (debug_issues U rules c)"
  by (induction U rules c rule: debug_issues.induct) (auto simp: encodable_simps)

lemma marker_lines_encodable:
  "list_all (\<lambda>(pat, a, b). encodable a \<and> encodable b) rules
     \<Longrightarrow> list_all encodable (marker_issues U rules c)"
  by (induction U rules c rule: marker_issues.induct) (auto simp: encodable_simps)

lemma secret_issues_encodable: "list_all encodable (secret_issues U SECRET_PATTERNS c)"
  by (rule secret_lines_encodable) (simp add: SECRET_PATTERNS_def env_hint_def encodable_simps)

lemma debug_issues_encodable: "list_all encodable (debug_issues U DEBUG_PATTERNS c)"
  by (rule debug_lines_encodable) (simp add: DEBUG_PATTERNS_def logger_hint_def encodable_simps)

lemma marker_issues_encodable: "list_all encodable (marker_issues U TEMP_MARKERS c)"
  by (rule marker_lines_encodable) (simp add: TEMP_MARKERS_def encodable_simps)

lemma str_of_nat_printable: "set (str_of_nat n) \<subseteq> {32..126}"
proof (induction n rule: str_of_nat.induct)
  case (1 n)
  show ?case
  proof (cases "n < 10")
    case True
    then show ?thesis by (simp add: str_of_nat.simps [of n])
  next
    case False
    have "48 + n mod 10 \<in> {32..126}" by simp
    with False 1 show ?thesis by (simp add: str_of_nat.simps [of n])
  qed
qed

lemma check_content_encodable: "list_all encodable (check_content U c)"
  using encodable_printable [OF str_of_nat_printable]
  by (simp add: check_content_def Let_def debug_issues_encodable marker_issues_encodable
        encodable_simps)

text \<open>
  The lines of each message after the first one hold no text of the event, so only the
  first print of a message can fail; pre-commit-check.py prints no text of the event at
  all.
\<close>

lemma protect_block_print:
  assumes "matches_pattern file_path PROTECTED_PATTERNS = Some blocked"
  shows "print_lines
           [u ''BLOCKED: '' @ file_path,
            u ''   Matches protected pattern: '' @ blocked,
            u ''   Reason: '' @ (case PROTECTED_REASONS blocked of
                                   None \<Rightarrow> u ''This file is protected from edits''
                                 | Some r \<Rightarrow> r),
            u ''   Use --force if this is intentional''] fin
         = (if encodable file_path
            then ([u ''BLOCKED: '' @ file_path,
                   u ''   Matches protected pattern: '' @ blocked,
                   u ''   Reason: '' @ (case PROTECTED_REASONS blocked of
                                          None \<Rightarrow> u ''This file is protected from edits''
                                        | Some r \<Rightarrow> r),
                   u ''   Use --force if this is intentional''], fin)
            else ([], Raises UnicodeEncodeError))"
  using protected_encodable [OF assms] reason_encodable [of blocked]
  by (simp add: print_lines_eq encodable_append encodable_u)

lemma protect_warn_eq:
  "protect_warn file_path =
     (case matches_pattern file_path WARN_PATTERNS of
        None \<Rightarrow> ([], Returns ())
      | Some warned \<Rightarrow>
          if encodable file_path
          then ([[9888, 65039] @ u '' WARNING: Editing sensitive file: '' @ file_path,
                 u ''   Matches pattern: '' @ warned], Exits 0)
          else ([], Raises UnicodeEncodeError))"
proof (cases "matches_pattern file_path WARN_PATTERNS")
  case None
  then show ?thesis by (simp add: protect_warn_def)
next
  case (Some warned)
  with warned_encodable [OF Some] warned_nonempty [OF Some] show ?thesis
    by (simp add: protect_warn_def print_lines_eq encodable_simps)
qed

lemma security_print:
  "print_lines
     ([[128683] @ u '' BLOCKED - Security issue detected in '' @ file_path @ u '':'']
      @ map (\<lambda>issue. u ''  - '' @ issue) (secret_issues U SECRET_PATTERNS c)
      @ [[10] @ u ''This edit has been BLOCKED to prevent committing secrets.'',
         u ''If this is a false positive, review and adjust the patterns in security-check.py'',
         u ''See security-patterns skill for secure credential management.'']) fin
   = (if encodable file_path
      then ([[128683] @ u '' BLOCKED - Security issue detected in '' @ file_path @ u '':'']
            @ map (\<lambda>issue. u ''  - '' @ issue) (secret_issues U SECRET_PATTERNS c)
            @ [[10] @ u ''This edit has been BLOCKED to prevent committing secrets.'',
               u ''If this is a false positive, review and adjust the patterns in security-check.py'',
               u ''See security-patterns skill for secure credential management.''], fin)
      else ([], Raises UnicodeEncodeError))"
  by (simp add: print_lines_eq encodable_simps issue_lines_encodable secret_issues_encodable)

lemma pre_commit_scan_eq:
  "pre_commit_scan U (JStr c) =
     (if check_content U c \<noteq> []
      then ([u ''Quality check - issues detected:'']
            @ map (\<lambda>issue. u ''  - '' @ issue) (check_content U c)
            @ [[10] @ u ''Consider resolving before committing.''], Exits 0)
      else ([], Returns ()))"
  by (simp add: pre_commit_scan_def Let_def print_lines_eq encodable_simps
        issue_lines_encodable check_content_encodable)

lemmas print_eval = print_lines_eq encodable_simps issue_lines_encodable
  secret_issues_encodable check_content_encodable

lemma protect_files_body_str:
  assumes "py_get input_data (u ''tool_input'') (JObj []) = Inr tool_input"
    and "py_get tool_input (u ''file_path'') (JStr []) = Inr (JStr file_path)"
    and "file_path \<noteq> []"
  shows "protect_files_body (Parsed input_data) =
           (case matches_pattern file_path PROTECTED_PATTERNS of
              None \<Rightarrow> protect_warn file_path
            | Some blocked \<Rightarrow>
                if encodable file_path
                then ([u ''BLOCKED: '' @ file_path,
                       u ''   Matches protected pattern: '' @ blocked,
                       u ''   Reason: '' @ (case PROTECTED_REASONS blocked of
                                              None \<Rightarrow> u ''This file is protected from edits''
                                            | Some r \<Rightarrow> r),
                       u ''   Use --force if this is intentional''], Exits 2)
                else ([], Raises UnicodeEncodeError))"
proof (cases "matches_pattern file_path PROTECTED_PATTERNS")
  case None
  with assms show ?thesis by (simp add: protect_files_body_def)
next
  case (Some blocked)
  then have "blocked \<in> set PROTECTED_PATTERNS"
    using first_match_mem by (simp add: matches_pattern_def)
  then have "blocked \<noteq> []" by (rule protected_nonempty)
  with assms Some protect_block_print [OF Some, of "Exits 2"] show ?thesis
    by (simp add: protect_files_body_def)
qed

lemma protect_warn_raises: "protect_warn file_path = (out, Raises e) \<Longrightarrow> out = []"
  by (auto simp: protect_warn_eq split: option.splits if_splits)

lemma protect_raises: "protect_files_body inp = (out, Raises e) \<Longrightarrow> out = []"
proof -
  assume a: "protect_files_body inp = (out, Raises e)"
  show ?thesis
  proof (cases inp)
    case Malformed
    with a show ?thesis by (simp add: protect_files_body_def)
  next
    case (Parsed input_data)
    show ?thesis
    proof (cases "py_get input_data (u ''tool_input'') (JObj [])")
      case (Inl x)
      with a Parsed show ?thesis by (simp add: protect_files_body_def)
    next
      case (Inr tool_input)
      note ti = Inr
      show ?thesis
      proof (cases "py_get tool_input (u ''file_path'') (JStr [])")
        case (Inl x)
        with a Parsed ti show ?thesis by (simp add: protect_files_body_def)
      next
        case (Inr fp)
        show ?thesis
        proof (cases "\<exists>file_path. fp = JStr file_path \<and> file_path \<noteq> []")
          case True
          then obtain file_path where fp: "fp = JStr file_path" "file_path \<noteq> []" by blast
          from a Parsed protect_files_body_str [OF ti Inr [unfolded fp(1)] fp(2)]
          show ?thesis
            by (auto dest: protect_warn_raises split: option.splits if_splits)
        next
          case False
          with a Parsed ti Inr show ?thesis
            by (cases fp) (auto simp: protect_files_body_def split: if_splits)
        qed
      qed
    qed
  qed
qed

lemma security_raises: "security_check_body U inp = (out, Raises e) \<Longrightarrow> out = []"
  by (auto simp: security_check_body_def Let_def check_for_secrets_def print_eval
           split: stdin.splits sum.splits json.splits if_splits option.splits)

lemma pre_commit_scan_raises: "pre_commit_scan U content = (out, Raises e) \<Longrightarrow> out = []"
  by (cases content) (auto simp: pre_commit_scan_eq, auto simp: pre_commit_scan_def split: if_splits)

lemma pre_commit_raises: "pre_commit_check_body U inp = (out, Raises e) \<Longrightarrow> out = []"
  by (auto simp: pre_commit_check_body_def Let_def dest: pre_commit_scan_raises
           split: stdin.splits sum.splits json.splits if_splits option.splits)

lemma pre_commit_scan_status: "pre_commit_scan U content = (out, Exits n) \<Longrightarrow> n = 0"
  by (cases content) (auto simp: pre_commit_scan_eq, auto simp: pre_commit_scan_def split: if_splits)

lemma pre_commit_status: "snd (pre_commit_check_main U inp) = 0"
  by (auto simp: pre_commit_check_main_def pre_commit_check_body_def finish_def Let_def
           dest: pre_commit_scan_status
           split: stdin.splits sum.splits json.splits if_splits option.splits prod.splits
                  outcome.splits)

lemma security_blocks:
  "snd (security_check_main U inp) = 2 \<Longrightarrow>
     \<exists>input_data tool_input file_path c. inp = Parsed input_data
        \<and> py_get input_data (u ''tool_input'') (JObj []) = Inr tool_input
        \<and> py_get tool_input (u ''file_path'') (JStr []) = Inr (JStr file_path)
        \<and> tool_content tool_input = Inr (JStr c)
        \<and> (\<exists>rule \<in> set SECRET_PATTERNS. re_search U (fst rule) c)"
  by (auto simp: security_check_main_def security_check_body_def finish_def Let_def
                 check_for_secrets_def secret_issues_nonempty[symmetric] print_eval
           split: stdin.splits sum.splits json.splits if_splits option.splits prod.splits
                  outcome.splits)

lemma protect_warn_status: "protect_warn file_path = (out, Exits n) \<Longrightarrow> n = 0"
  by (auto simp: protect_warn_eq split: option.splits if_splits)

lemma protect_blocks:
  "snd (protect_files_main inp) = 2 \<Longrightarrow>
     \<exists>input_data tool_input file_path blocked. inp = Parsed input_data
        \<and> py_get input_data (u ''tool_input'') (JObj []) = Inr tool_input
        \<and> py_get tool_input (u ''file_path'') (JStr []) = Inr (JStr file_path)
        \<and> matches_pattern file_path PROTECTED_PATTERNS = Some blocked"
  by (auto simp: protect_files_main_def protect_files_body_def finish_def Let_def print_eval
           dest: protect_warn_status
           split: stdin.splits sum.splits json.splits if_splits option.splits prod.splits
                  outcome.splits)

lemma rep_numeral: "rep (numeral n) r = Seq r (rep (pred_numeral n) r)"
  by (simp add: numeral_eq_Suc)

lemmas rx_eval = re_search_def advance_def chr_match_def cls_match_def cls_members_def
  cls_lowered_def in_cls_def lit_def seqs_def opt_def plus_def rep_min_def rep_numeral rng_def
  one_def lower_cp_def sre_lower_def sre_iscased_def sre_fixes_def is_space_def is_word_def
  at_boundary_def alnum_def sep_def assign_def quote_def u_def

lemma PROTECTED_PATTERNS_eq:
  "PROTECTED_PATTERNS = [u ''package-lock.json'', u ''yarn.lock'', u ''pnpm-lock.yaml'',
     u ''Gemfile.lock'', u ''poetry.lock'', u ''Cargo.lock'', u ''.env'', u ''.env.local'',
     u ''.env.production'', u ''**/secrets/*'', u ''**/credentials/*'', u ''.git/*'']"
  by (simp add: PROTECTED_PATTERNS_def PROTECTED_PATTERNS_WITH_REASONS_def)

lemmas path_eval = matches_pattern_def lstrip_def basename_def PROTECTED_PATTERNS_eq
  WARN_PATTERNS_def u_def

lemma env_reason:
  "PROTECTED_REASONS (u ''.env'')
     = Some (u ''.env files contain secrets '' @ [8212] @ u '' edit manually outside of Claude Code'')"
  by (simp add: PROTECTED_REASONS_def PROTECTED_PATTERNS_WITH_REASONS_def u_def)

lemma api_key_example_matches:
  "re_search U (fst (hd SECRET_PATTERNS))
     (u ''api_key: '' @ [34] @ u ''abcdefghijklmnopqrstu'' @ [34])"
  by (simp add: SECRET_PATTERNS_def rx_eval)

lemma api_key_example_issues:
  "secret_issues U SECRET_PATTERNS (u ''api_key: '' @ [34] @ u ''abcdefghijklmnopqrstu'' @ [34])
     = [u ''Potential API key detected '' @ [8594]
          @ u '' Move to .env file and use environment variables (e.g., process.env.API_KEY)'']"
  by (simp add: SECRET_PATTERNS_def rx_eval env_hint_def)

lemma hd_SECRET_PATTERNS: "hd SECRET_PATTERNS \<in> set SECRET_PATTERNS"
  by (simp add: SECRET_PATTERNS_def)

subsection \<open>The matcher computes the relational meaning\<close>

lemma star_ends_sound:
  "y \<in> set (star_ends step n x) \<Longrightarrow> (x, y) \<in> {(x, y). y \<in> set (step x)}\<^sup>*"
proof (induction n arbitrary: x)
  case 0
  then show ?case by simp
next
  case (Suc n)
  from Suc.prems consider "y = x"
    | z where "z \<in> set (step x)" "y \<in> set (star_ends step n z)"
    by auto
  then show ?case
  proof cases
    case 1
    then show ?thesis by simp
  next
    case 2
    from 2(2) have "(z, y) \<in> {(x, y). y \<in> set (step x)}\<^sup>*" by (rule Suc.IH)
    moreover from 2(1) have "(x, z) \<in> {(x, y). y \<in> set (step x)}" by simp
    ultimately show ?thesis by (rule converse_rtrancl_into_rtrancl[rotated])
  qed
qed

lemma star_ends_head: "x \<in> set (star_ends step n x)"
  by (cases n) simp_all

lemma star_ends_complete:
  assumes shrink: "\<And>x y. y \<in> set (step x) \<Longrightarrow>
             length (snd y) \<le> length (snd x) \<and> (length (snd y) = length (snd x) \<longrightarrow> y = x)"
    and "(x, y) \<in> {(x, y). y \<in> set (step x)}\<^sup>*"
  shows "length (snd x) \<le> n \<Longrightarrow> y \<in> set (star_ends step n x)"
  using assms(2)
proof (induction arbitrary: n rule: converse_rtrancl_induct)
  case base
  show ?case by (rule star_ends_head)
next
  case (step x z)
  from step(1) have zx: "z \<in> set (step x)" by simp
  show ?case
  proof (cases "z = x")
    case True
    with step show ?thesis by simp
  next
    case False
    with shrink [OF zx] have lt: "length (snd z) < length (snd x)" by auto
    with step.prems obtain n' where n: "n = Suc n'" "length (snd z) \<le> n'"
      by (cases n) auto
    from step.IH [OF n(2)] have y: "y \<in> set (star_ends step n' z)" .
    from zx lt have "z \<in> set (filter (\<lambda>q. length (snd q) < length (snd x)) (step x))"
      by simp
    with y have "y \<in> set (concat (map (star_ends step n')
                     (filter (\<lambda>q. length (snd q) < length (snd x)) (step x))))"
      unfolding set_concat set_map by blast
    then show ?thesis unfolding n(1) by simp
  qed
qed

lemma star_ends_shrink:
  assumes shrink: "\<And>x y. y \<in> set (step x) \<Longrightarrow>
             length (snd y) \<le> length (snd x) \<and> (length (snd y) = length (snd x) \<longrightarrow> y = x)"
  shows "y \<in> set (star_ends step n x) \<Longrightarrow>
           length (snd y) \<le> length (snd x) \<and> (length (snd y) = length (snd x) \<longrightarrow> y = x)"
proof (induction n arbitrary: x)
  case 0
  then show ?case by simp
next
  case (Suc n)
  from Suc.prems consider "y = x"
    | z where "z \<in> set (step x)" "length (snd z) < length (snd x)" "y \<in> set (star_ends step n z)"
    by auto
  then show ?case
  proof cases
    case 1
    then show ?thesis by simp
  next
    case 2
    from Suc.IH [OF 2(3)] 2(2) show ?thesis by auto
  qed
qed

lemma ends_shrink:
  "y \<in> set (ends U ic r x) \<Longrightarrow>
     length (snd y) \<le> length (snd x) \<and> (length (snd y) = length (snd x) \<longrightarrow> y = x)"
proof (induction r arbitrary: x y)
  case (Seq r1 r2)
  from Seq.prems obtain mid where m: "mid \<in> set (ends U ic r1 x)" "y \<in> set (ends U ic r2 mid)"
    by auto
  from Seq.IH(1) [OF m(1)] Seq.IH(2) [OF m(2)] show ?case by auto
next
  case (Star r)
  from Star.prems have "y \<in> set (star_ends (ends U ic r) (length (snd x)) x)" by simp
  then show ?case using star_ends_shrink [of "ends U ic r"] Star.IH by blast
qed (auto simp: advance_def split: list.splits if_splits)

lemma ends_sem: "set (ends U ic r cur) = sem U ic r cur"
proof (induction r arbitrary: cur)
  case (Star r)
  have eq: "{(x, y). y \<in> set (ends U ic r x)} = {(x, y). y \<in> sem U ic r x}"
    using Star.IH by simp
  have "set (star_ends (ends U ic r) (length (snd cur)) cur)
          = {cur'. (cur, cur') \<in> {(x, y). y \<in> set (ends U ic r x)}\<^sup>*}"
  proof (rule set_eqI, rule iffI)
    fix y assume "y \<in> set (star_ends (ends U ic r) (length (snd cur)) cur)"
    then show "y \<in> {cur'. (cur, cur') \<in> {(x, y). y \<in> set (ends U ic r x)}\<^sup>*}"
      using star_ends_sound by simp
  next
    fix y assume "y \<in> {cur'. (cur, cur') \<in> {(x, y). y \<in> set (ends U ic r x)}\<^sup>*}"
    then have "(cur, y) \<in> {(x, y). y \<in> set (ends U ic r x)}\<^sup>*" by simp
    then show "y \<in> set (star_ends (ends U ic r) (length (snd cur)) cur)"
      by (rule star_ends_complete [OF ends_shrink, rotated]) simp_all
  qed
  then show ?case by (simp add: eq)
qed (auto simp: advance_def split: list.splits)

lemma search_from_iff:
  "search_from U (ic, r) prev s \<longleftrightarrow>
     (\<exists>a b. s = a @ b \<and> sem U ic r (if a = [] then prev else Some (last a), b) \<noteq> {})"
proof (induction s arbitrary: prev)
  case Nil
  show ?case using ends_sem [of U ic r "(prev, [])"] by (auto simp flip: set_empty)
next
  case (Cons c cs)
  have here: "ends U ic r (prev, c # cs) \<noteq> [] \<longleftrightarrow> sem U ic r (prev, c # cs) \<noteq> {}"
    using ends_sem [of U ic r "(prev, c # cs)"] by (auto simp flip: set_empty)
  have "(\<exists>a b. c # cs = a @ b \<and> sem U ic r (if a = [] then prev else Some (last a), b) \<noteq> {})
        \<longleftrightarrow> sem U ic r (prev, c # cs) \<noteq> {}
            \<or> (\<exists>a b. cs = a @ b \<and> sem U ic r (if a = [] then Some c else Some (last a), b) \<noteq> {})"
    (is "?L \<longleftrightarrow> ?R")
  proof
    assume ?L
    then obtain a b where ab: "c # cs = a @ b"
      "sem U ic r (if a = [] then prev else Some (last a), b) \<noteq> {}" by blast
    show ?R
    proof (cases a)
      case Nil
      with ab show ?thesis by simp
    next
      case (Cons x a')
      with ab have "cs = a' @ b" "x = c" by simp_all
      moreover have "(if a = [] then prev else Some (last a))
                      = (if a' = [] then Some c else Some (last a'))"
        using Cons \<open>x = c\<close> by simp
      ultimately have "cs = a' @ b
          \<and> sem U ic r (if a' = [] then Some c else Some (last a'), b) \<noteq> {}"
        using ab(2) by simp
      then show ?thesis by blast
    qed
  next
    assume ?R
    then show ?L
    proof
      assume "sem U ic r (prev, c # cs) \<noteq> {}"
      then have "c # cs = [] @ (c # cs)
          \<and> sem U ic r (if ([]::ustr) = [] then prev else Some (last []), c # cs) \<noteq> {}" by simp
      then show ?L by blast
    next
      assume "\<exists>a b. cs = a @ b \<and> sem U ic r (if a = [] then Some c else Some (last a), b) \<noteq> {}"
      then obtain a b where ab: "cs = a @ b"
        "sem U ic r (if a = [] then Some c else Some (last a), b) \<noteq> {}" by blast
      then have "c # cs = (c # a) @ b
          \<and> sem U ic r (if c # a = [] then prev else Some (last (c # a)), b) \<noteq> {}"
        by (cases a) simp_all
      then show ?L by blast
    qed
  qed
  then show ?case using here Cons.IH [of "Some c"] by simp
qed


lemma re_search_iff:
  "re_search U (ic, r) s \<longleftrightarrow>
     (\<exists>a b. s = a @ b \<and> sem U ic r (if a = [] then None else Some (last a), b) \<noteq> {})"
  by (simp add: re_search_def search_from_iff)

subsection \<open>The path \<open>.env.production\<close>\<close>

text \<open>
  Claim C1 says that an event whose \<open>file_path\<close> is exactly \<open>.env.production\<close> is
  answered by a line beginning \<open>BLOCKED:\<close> and exit status 2, whatever the content.
  The code prints nothing and exits with status 0: \<open>lstrip('./')\<close> removes the leading
  dot of the name, and neither \<open>env.production\<close> nor its basename matches a protected
  pattern.
\<close>

theorem C1_env_production_not_blocked:
  "protect_files_main (Parsed (JObj [(u ''tool_input'',
      JObj [(u ''file_path'', JStr (u ''.env.production'')), (u ''content'', c)])])) = ([], 0)"
  by (simp add: protect_files_main_def protect_files_body_def protect_warn_def finish_def
        path_eval)

text \<open>The same file below a directory is blocked, through its basename.\<close>

lemma env_production_in_directory_blocked:
  "protect_files_main (Parsed (JObj [(u ''tool_input'',
      JObj [(u ''file_path'', JStr (u ''config/.env.production''))])]))
   = ([u ''BLOCKED: config/.env.production'',
       u ''   Matches protected pattern: .env.production'',
       u ''   Reason: .env files contain secrets '' @ [8212]
         @ u '' edit manually outside of Claude Code'',
       u ''   Use --force if this is intentional''], 2)"
proof -
  have "PROTECTED_REASONS (u ''.env.production'')
          = Some (u ''.env files contain secrets '' @ [8212]
                    @ u '' edit manually outside of Claude Code'')"
    by (simp add: PROTECTED_REASONS_def PROTECTED_PATTERNS_WITH_REASONS_def u_def)
  then show ?thesis
    by (simp add: protect_files_main_def protect_files_body_def finish_def path_eval
          encodable_def is_surrogate_def)
qed

subsection \<open>Failing open\<close>

text \<open>
  Claim C3: on standard input that is not JSON each classifier prints nothing and exits
  with status 0; whenever the body of a classifier raises an exception, a failure of
  \<open>print\<close> included, nothing has been printed and the exit status is 0; and exit
  status 2 is reached only when a pattern has matched: a protected pattern on the path for
  protect-files.py, a secret pattern on the content for security-check.py, and never for
  pre-commit-check.py.
\<close>

theorem C3_fail_open:
  "protect_files_main Malformed = ([], 0)
   \<and> security_check_main U Malformed = ([], 0)
   \<and> pre_commit_check_main U Malformed = ([], 0)
   \<and> (protect_files_body inp = (out, Raises e) \<longrightarrow> out = [] \<and> protect_files_main inp = ([], 0))
   \<and> (security_check_body U inp = (out, Raises e)
          \<longrightarrow> out = [] \<and> security_check_main U inp = ([], 0))
   \<and> (pre_commit_check_body U inp = (out, Raises e)
          \<longrightarrow> out = [] \<and> pre_commit_check_main U inp = ([], 0))
   \<and> (snd (protect_files_main bp) = 2 \<longrightarrow>
         (\<exists>input_data tool_input file_path blocked. bp = Parsed input_data
            \<and> py_get input_data (u ''tool_input'') (JObj []) = Inr tool_input
            \<and> py_get tool_input (u ''file_path'') (JStr []) = Inr (JStr file_path)
            \<and> matches_pattern file_path PROTECTED_PATTERNS = Some blocked))
   \<and> (snd (security_check_main U bs) = 2 \<longrightarrow>
         (\<exists>input_data tool_input file_path c. bs = Parsed input_data
            \<and> py_get input_data (u ''tool_input'') (JObj []) = Inr tool_input
            \<and> py_get tool_input (u ''file_path'') (JStr []) = Inr (JStr file_path)
            \<and> tool_content tool_input = Inr (JStr c)
            \<and> (\<exists>rule \<in> set SECRET_PATTERNS. re_search U (fst rule) c)))
   \<and> snd (pre_commit_check_main U bq) = 0"
proof -
  have m: "protect_files_main Malformed = ([], 0)" "security_check_main U Malformed = ([], 0)"
    "pre_commit_check_main U Malformed = ([], 0)"
    by (simp_all add: protect_files_main_def protect_files_body_def security_check_main_def
          security_check_body_def pre_commit_check_main_def pre_commit_check_body_def finish_def)
  have p: "protect_files_body inp = (out, Raises e)
             \<longrightarrow> out = [] \<and> protect_files_main inp = ([], 0)"
    using protect_raises [of inp out e] by (auto simp: protect_files_main_def finish_def)
  have s: "security_check_body U inp = (out, Raises e)
             \<longrightarrow> out = [] \<and> security_check_main U inp = ([], 0)"
    using security_raises [of U inp out e] by (auto simp: security_check_main_def finish_def)
  have q: "pre_commit_check_body U inp = (out, Raises e)
             \<longrightarrow> out = [] \<and> pre_commit_check_main U inp = ([], 0)"
    using pre_commit_raises [of U inp out e]
    by (auto simp: pre_commit_check_main_def finish_def)
  show ?thesis
    using m p s q protect_blocks [of bp] security_blocks [of U bs] pre_commit_status [of U bq]
    by blast
qed

theorem C3_fail_open_witness:
  "\<forall>U. protect_files_body (Parsed JNull) = ([], Raises AttributeError)
   \<and> protect_files_main (Parsed JNull) = ([], 0)
   \<and> security_check_body U (Parsed JNull) = ([], Raises AttributeError)
   \<and> security_check_main U (Parsed JNull) = ([], 0)
   \<and> pre_commit_check_body U (Parsed JNull) = ([], Raises AttributeError)
   \<and> pre_commit_check_main U (Parsed JNull) = ([], 0)
   \<and> protect_files_body (Parsed (JObj [(u ''tool_input'',
            JObj [(u ''file_path'', JStr (u ''a/secrets/'' @ [55296]))])]))
        = ([], Raises UnicodeEncodeError)
   \<and> protect_files_main (Parsed (JObj [(u ''tool_input'',
            JObj [(u ''file_path'', JStr (u ''a/secrets/'' @ [55296]))])])) = ([], 0)
   \<and> snd (protect_files_main (Parsed (JObj [(u ''tool_input'',
            JObj [(u ''file_path'', JStr (u ''config/.env''))])]))) = 2
   \<and> (\<exists>blocked. matches_pattern (u ''config/.env'') PROTECTED_PATTERNS = Some blocked)
   \<and> snd (security_check_main U (Parsed (JObj [(u ''tool_input'',
            JObj [(u ''file_path'', JStr (u ''src/app.ts'')),
                  (u ''content'', JStr (u ''api_key: '' @ [34] @ u ''abcdefghijklmnopqrstu''
                     @ [34]))])]))) = 2
   \<and> (\<exists>rule \<in> set SECRET_PATTERNS.
         re_search U (fst rule) (u ''api_key: '' @ [34] @ u ''abcdefghijklmnopqrstu'' @ [34]))"
proof
  fix U
  let ?bp = "Parsed (JObj [(u ''tool_input'', JObj [(u ''file_path'', JStr (u ''config/.env''))])])"
  let ?bu = "Parsed (JObj [(u ''tool_input'',
               JObj [(u ''file_path'', JStr (u ''a/secrets/'' @ [55296]))])])"
  let ?c = "u ''api_key: '' @ [34] @ u ''abcdefghijklmnopqrstu'' @ [34]"
  let ?bs = "Parsed (JObj [(u ''tool_input'',
               JObj [(u ''file_path'', JStr (u ''src/app.ts'')), (u ''content'', JStr ?c)])])"
  have r: "protect_files_body (Parsed JNull) = ([], Raises AttributeError)"
    "security_check_body U (Parsed JNull) = ([], Raises AttributeError)"
    "pre_commit_check_body U (Parsed JNull) = ([], Raises AttributeError)"
    by (simp_all add: protect_files_body_def security_check_body_def pre_commit_check_body_def)
  have ru: "protect_files_body ?bu = ([], Raises UnicodeEncodeError)"
    by (simp add: protect_files_body_def path_eval encodable_def is_surrogate_def)
  have bp: "snd (protect_files_main ?bp) = 2"
    using env_reason
    by (simp add: protect_files_main_def protect_files_body_def finish_def path_eval
          encodable_def is_surrogate_def)
  have sk: "\<not> secret_scan_skipped U (u ''src/app.ts'')"
    by (simp add: secret_scan_skipped_def SKIP_FILES_def basename_def lower_def is_ascii_def
          lower_cp_def u_def)
  have bs: "snd (security_check_main U ?bs) = 2"
    using sk api_key_example_issues [of U]
    by (simp add: security_check_main_def security_check_body_def finish_def tool_content_def
          check_for_secrets_def encodable_def is_surrogate_def u_def)
  have mp: "\<exists>blocked. matches_pattern (u ''config/.env'') PROTECTED_PATTERNS = Some blocked"
  proof -
    have "matches_pattern (u ''config/.env'') PROTECTED_PATTERNS = Some (u ''.env'')"
      by (simp add: path_eval)
    then show ?thesis by blast
  qed
  have ms: "\<exists>rule \<in> set SECRET_PATTERNS. re_search U (fst rule) ?c"
    using api_key_example_matches [of U] hd_SECRET_PATTERNS by blast
  from C3_fail_open [of U "Parsed JNull" "[]" AttributeError ?bp ?bs Malformed]
       C3_fail_open [of U ?bu "[]" UnicodeEncodeError ?bp ?bs Malformed]
       r ru bp bs mp ms
  show "protect_files_body (Parsed JNull) = ([], Raises AttributeError)
   \<and> protect_files_main (Parsed JNull) = ([], 0)
   \<and> security_check_body U (Parsed JNull) = ([], Raises AttributeError)
   \<and> security_check_main U (Parsed JNull) = ([], 0)
   \<and> pre_commit_check_body U (Parsed JNull) = ([], Raises AttributeError)
   \<and> pre_commit_check_main U (Parsed JNull) = ([], 0)
   \<and> protect_files_body ?bu = ([], Raises UnicodeEncodeError)
   \<and> protect_files_main ?bu = ([], 0)
   \<and> snd (protect_files_main ?bp) = 2
   \<and> (\<exists>blocked. matches_pattern (u ''config/.env'') PROTECTED_PATTERNS = Some blocked)
   \<and> snd (security_check_main U ?bs) = 2
   \<and> (\<exists>rule \<in> set SECRET_PATTERNS. re_search U (fst rule) ?c)"
    by simp
qed

subsection \<open>Blocking before warning\<close>




subsection \<open>Exempt paths\<close>

lemmas skip_eval = secret_scan_skipped_def should_skip_def SKIP_FILES_def SKIP_EXTENSIONS_def
  basename_def splitext_ext_def lower_def is_ascii_def lower_cp_def u_def

lemma lower_Nil: "lower U [] = []"
  by (simp add: lower_def is_ascii_def)

lemma should_skip_nonempty: "should_skip U file_path \<Longrightarrow> file_path \<noteq> []"
  by (auto simp: should_skip_def SKIP_EXTENSIONS_def basename_def splitext_ext_def lower_Nil
        u_def Let_def)

lemma tool_content_dict: "tool_content (JObj kvs) \<noteq> Inl e"
  by (simp add: tool_content_def)

text \<open>
  Claim C5: when the path of the event is a string that the filter of a classifier
  exempts (the two tests at the head of \<open>check_for_secrets\<close> for security-check.py,
  \<open>should_skip\<close> for pre-commit-check.py), that classifier prints nothing and exits
  with status 0, whatever the content is.
\<close>

theorem C5_exempt_no_findings:
  assumes "py_get input_data (u ''tool_input'') (JObj []) = Inr tool_input"
    and "py_get tool_input (u ''file_path'') (JStr []) = Inr (JStr file_path)"
  shows "(secret_scan_skipped U file_path
            \<longrightarrow> security_check_main U (Parsed input_data) = ([], 0))
       \<and> (should_skip U file_path \<longrightarrow> pre_commit_check_main U (Parsed input_data) = ([], 0))"
proof -
  obtain kvs where t: "tool_input = JObj kvs"
    using assms(2) by (cases tool_input) auto
  obtain c where c: "tool_content tool_input = Inr c"
    using tool_content_dict [of kvs] t by (cases "tool_content tool_input") auto
  show ?thesis
    using assms c should_skip_nonempty [of U file_path]
    by (auto simp: security_check_main_def security_check_body_def pre_commit_check_main_def
                pre_commit_check_body_def finish_def check_for_secrets_def)
qed

theorem C5_exempt_no_findings_witness:
  "\<forall>U. secret_scan_skipped U (u ''src/app.test.js'') \<and> should_skip U (u ''src/app.test.js'')
   \<and> security_check_main U (Parsed (JObj [(u ''tool_input'',
         JObj [(u ''file_path'', JStr (u ''src/app.test.js'')),
               (u ''content'', JStr (u ''password = '' @ [34] @ u ''hunter2'' @ [34]
                                       @ u '' # FIXME''))])])) = ([], 0)
   \<and> pre_commit_check_main U (Parsed (JObj [(u ''tool_input'',
         JObj [(u ''file_path'', JStr (u ''src/app.test.js'')),
               (u ''content'', JStr (u ''password = '' @ [34] @ u ''hunter2'' @ [34]
                                       @ u '' # FIXME''))])])) = ([], 0)"
proof
  fix U
  let ?t = "JObj [(u ''file_path'', JStr (u ''src/app.test.js'')),
               (u ''content'', JStr (u ''password = '' @ [34] @ u ''hunter2'' @ [34]
                                       @ u '' # FIXME''))]"
  have g1: "py_get (JObj [(u ''tool_input'', ?t)]) (u ''tool_input'') (JObj []) = Inr ?t"
    by (simp add: u_def)
  have g2: "py_get ?t (u ''file_path'') (JStr []) = Inr (JStr (u ''src/app.test.js''))"
    by (simp add: u_def)
  have s1: "secret_scan_skipped U (u ''src/app.test.js'')" by (simp add: skip_eval)
  have s2: "should_skip U (u ''src/app.test.js'')" by (simp add: skip_eval)
  from C5_exempt_no_findings [OF g1 g2, of U] s1 s2
  show "secret_scan_skipped U (u ''src/app.test.js'') \<and> should_skip U (u ''src/app.test.js'')
   \<and> security_check_main U (Parsed (JObj [(u ''tool_input'', ?t)])) = ([], 0)
   \<and> pre_commit_check_main U (Parsed (JObj [(u ''tool_input'', ?t)])) = ([], 0)"
    by simp
qed

subsection \<open>Nothing to scan\<close>

text \<open>
  Claim C10: when the \<open>content\<close> and the \<open>new_string\<close> of the event are both the
  empty string, absent or otherwise false, security-check.py and pre-commit-check.py leave
  through \<open>sys.exit(0)\<close> before any scan, with nothing printed, whatever the path is;
  security-check.py does the same when the path is the empty string, absent or otherwise
  false, whatever the content is.
\<close>

theorem C10_nothing_to_scan:
  assumes "py_get input_data (u ''tool_input'') (JObj []) = Inr tool_input"
    and "py_get tool_input (u ''file_path'') (JStr []) = Inr fp"
    and "py_get tool_input (u ''content'') (JStr []) = Inr c1"
    and "py_get tool_input (u ''new_string'') (JStr []) = Inr c2"
  shows "(\<not> truthy c1 \<and> \<not> truthy c2
          \<longrightarrow> security_check_body U (Parsed input_data) = ([], Exits 0)
              \<and> security_check_main U (Parsed input_data) = ([], 0)
              \<and> pre_commit_check_body U (Parsed input_data) = ([], Exits 0)
              \<and> pre_commit_check_main U (Parsed input_data) = ([], 0))
       \<and> (\<not> truthy fp \<longrightarrow> security_check_body U (Parsed input_data) = ([], Exits 0)
              \<and> security_check_main U (Parsed input_data) = ([], 0))"
  using assms
  by (auto simp: security_check_main_def security_check_body_def pre_commit_check_main_def
              pre_commit_check_body_def finish_def tool_content_def)

theorem C10_nothing_to_scan_witness:
  "\<forall>U. security_check_body U (Parsed (JObj [(u ''tool_input'',
       JObj [(u ''file_path'', JStr (u ''config/.env'')), (u ''content'', JStr [])])]))
     = ([], Exits 0)
   \<and> pre_commit_check_main U (Parsed (JObj [(u ''tool_input'',
       JObj [(u ''file_path'', JStr (u ''config/.env'')), (u ''content'', JStr [])])]))
     = ([], 0)
   \<and> security_check_main U (Parsed (JObj [(u ''tool_input'',
       JObj [(u ''content'', JStr (u ''password = '' @ [34] @ u ''hunter2'' @ [34]))])]))
     = ([], 0)"
proof
  fix U
  let ?t1 = "JObj [(u ''file_path'', JStr (u ''config/.env'')), (u ''content'', JStr [])]"
  let ?t2 = "JObj [(u ''content'', JStr (u ''password = '' @ [34] @ u ''hunter2'' @ [34]))]"
  have a1: "py_get (JObj [(u ''tool_input'', ?t1)]) (u ''tool_input'') (JObj []) = Inr ?t1"
    and a2: "py_get ?t1 (u ''file_path'') (JStr []) = Inr (JStr (u ''config/.env''))"
    and a3: "py_get ?t1 (u ''content'') (JStr []) = Inr (JStr [])"
    and a4: "py_get ?t1 (u ''new_string'') (JStr []) = Inr (JStr [])"
    and b1: "py_get (JObj [(u ''tool_input'', ?t2)]) (u ''tool_input'') (JObj []) = Inr ?t2"
    and b2: "py_get ?t2 (u ''file_path'') (JStr []) = Inr (JStr [])"
    and b3: "py_get ?t2 (u ''content'') (JStr [])
               = Inr (JStr (u ''password = '' @ [34] @ u ''hunter2'' @ [34]))"
    and b4: "py_get ?t2 (u ''new_string'') (JStr []) = Inr (JStr [])"
    by (simp_all add: u_def)
  from C10_nothing_to_scan [OF a1 a2 a3 a4, of U] C10_nothing_to_scan [OF b1 b2 b3 b4, of U]
  show "security_check_body U (Parsed (JObj [(u ''tool_input'', ?t1)])) = ([], Exits 0)
   \<and> pre_commit_check_main U (Parsed (JObj [(u ''tool_input'', ?t1)])) = ([], 0)
   \<and> security_check_main U (Parsed (JObj [(u ''tool_input'', ?t2)])) = ([], 0)"
    by simp
qed

subsection \<open>The result depends on the path and the content only\<close>

text \<open>
  Claim C8: the output and the exit status of each classifier are determined by the pair
  of the path (\<open>tool_input.get('file_path', '')\<close>) and the content
  (\<open>tool_input.get('content', '') or tool_input.get('new_string', '')\<close>) of the event:
  two events that agree on both, whatever else they contain, give the same printed lines
  in the same order and the same exit status, in each of the three classifiers.
\<close>

theorem C8_function_of_path_and_content:
  assumes "py_get input_data (u ''tool_input'') (JObj []) = Inr tool_input"
    and "py_get input_data' (u ''tool_input'') (JObj []) = Inr tool_input'"
    and "py_get tool_input (u ''file_path'') (JStr [])
           = py_get tool_input' (u ''file_path'') (JStr [])"
    and "tool_content tool_input = tool_content tool_input'"
  shows "security_check_main U (Parsed input_data) = security_check_main U (Parsed input_data')
       \<and> pre_commit_check_main U (Parsed input_data)
           = pre_commit_check_main U (Parsed input_data')
       \<and> protect_files_main (Parsed input_data) = protect_files_main (Parsed input_data')"
  by (simp add: security_check_main_def security_check_body_def pre_commit_check_main_def
                pre_commit_check_body_def protect_files_main_def protect_files_body_def assms
           cong: sum.case_cong)

theorem C8_function_of_path_and_content_witness:
  "\<forall>U. security_check_main U (Parsed (JObj [(u ''tool_input'',
       JObj [(u ''file_path'', JStr (u ''src/app.ts'')), (u ''content'', JStr (u ''x = 1''))])]))
   = security_check_main U (Parsed (JObj [(u ''tool_name'', JStr (u ''Edit'')), (u ''tool_input'',
       JObj [(u ''old_string'', JStr (u ''x = 0'')), (u ''new_string'', JStr (u ''x = 1'')),
             (u ''file_path'', JStr (u ''src/app.ts''))])]))
   \<and> pre_commit_check_main U (Parsed (JObj [(u ''tool_input'',
       JObj [(u ''file_path'', JStr (u ''src/app.ts'')), (u ''content'', JStr (u ''x = 1''))])]))
   = pre_commit_check_main U (Parsed (JObj [(u ''tool_name'', JStr (u ''Edit'')), (u ''tool_input'',
       JObj [(u ''old_string'', JStr (u ''x = 0'')), (u ''new_string'', JStr (u ''x = 1'')),
             (u ''file_path'', JStr (u ''src/app.ts''))])]))
   \<and> protect_files_main (Parsed (JObj [(u ''tool_input'',
       JObj [(u ''file_path'', JStr (u ''src/app.ts'')), (u ''content'', JStr (u ''x = 1''))])]))
   = protect_files_main (Parsed (JObj [(u ''tool_name'', JStr (u ''Edit'')), (u ''tool_input'',
       JObj [(u ''old_string'', JStr (u ''x = 0'')), (u ''new_string'', JStr (u ''x = 1'')),
             (u ''file_path'', JStr (u ''src/app.ts''))])]))"
proof
  fix U
  let ?t = "JObj [(u ''file_path'', JStr (u ''src/app.ts'')), (u ''content'', JStr (u ''x = 1''))]"
  let ?t' = "JObj [(u ''old_string'', JStr (u ''x = 0'')), (u ''new_string'', JStr (u ''x = 1'')),
             (u ''file_path'', JStr (u ''src/app.ts''))]"
  have a: "py_get (JObj [(u ''tool_input'', ?t)]) (u ''tool_input'') (JObj []) = Inr ?t"
    and b: "py_get (JObj [(u ''tool_name'', JStr (u ''Edit'')), (u ''tool_input'', ?t')])
              (u ''tool_input'') (JObj []) = Inr ?t'"
    and c: "py_get ?t (u ''file_path'') (JStr []) = py_get ?t' (u ''file_path'') (JStr [])"
    and d: "tool_content ?t = tool_content ?t'"
    by (simp_all add: u_def tool_content_def)
  from C8_function_of_path_and_content [OF a b c d, of U]
  show "security_check_main U (Parsed (JObj [(u ''tool_input'', ?t)]))
   = security_check_main U (Parsed (JObj [(u ''tool_name'', JStr (u ''Edit'')),
       (u ''tool_input'', ?t')]))
   \<and> pre_commit_check_main U (Parsed (JObj [(u ''tool_input'', ?t)]))
   = pre_commit_check_main U (Parsed (JObj [(u ''tool_name'', JStr (u ''Edit'')),
       (u ''tool_input'', ?t')]))
   \<and> protect_files_main (Parsed (JObj [(u ''tool_input'', ?t)]))
   = protect_files_main (Parsed (JObj [(u ''tool_name'', JStr (u ''Edit'')),
       (u ''tool_input'', ?t')]))" .
qed

subsection \<open>Secrets in the content\<close>

lemma secret_issues_filter:
  "secret_issues U rules c =
     map (\<lambda>(pat, secret_type, remediation).
            u ''Potential '' @ secret_type @ u '' detected '' @ [8594, 32] @ remediation)
         (filter (\<lambda>rule. re_search U (fst rule) c) rules)"
  by (induction U rules c rule: secret_issues.induct) auto

lemma no_secret_in_empty: "rule \<in> set SECRET_PATTERNS \<Longrightarrow> \<not> re_search U (fst rule) []"
  by (auto simp: SECRET_PATTERNS_def rx_eval)

lemma security_scan_run:
  assumes "py_get input_data (u ''tool_input'') (JObj []) = Inr tool_input"
    and "py_get tool_input (u ''file_path'') (JStr []) = Inr (JStr file_path)"
    and "file_path \<noteq> []" and "\<not> secret_scan_skipped U file_path"
    and "tool_content tool_input = Inr (JStr c)"
    and "\<exists>rule \<in> set SECRET_PATTERNS. re_search U (fst rule) c"
  shows "security_check_main U (Parsed input_data) =
     (if encodable file_path
      then ([[128683] @ u '' BLOCKED - Security issue detected in '' @ file_path @ u '':'']
            @ map (\<lambda>issue. u ''  - '' @ issue) (secret_issues U SECRET_PATTERNS c)
            @ [[10] @ u ''This edit has been BLOCKED to prevent committing secrets.'',
               u ''If this is a false positive, review and adjust the patterns in security-check.py'',
               u ''See security-patterns skill for secure credential management.''], 2)
      else ([], 0))"
proof -
  have ne: "c \<noteq> []" using assms(6) no_secret_in_empty by blast
  have iss: "secret_issues U SECRET_PATTERNS c \<noteq> []"
    using assms(6) by (simp add: secret_issues_nonempty)
  have b: "security_check_body U (Parsed input_data) =
     print_lines
       ([[128683] @ u '' BLOCKED - Security issue detected in '' @ file_path @ u '':'']
        @ map (\<lambda>issue. u ''  - '' @ issue) (secret_issues U SECRET_PATTERNS c)
        @ [[10] @ u ''This edit has been BLOCKED to prevent committing secrets.'',
           u ''If this is a false positive, review and adjust the patterns in security-check.py'',
           u ''See security-patterns skill for secure credential management.'']) (Exits 2)"
    using assms(1-5) ne iss
    by (simp add: security_check_body_def check_for_secrets_def)
  show ?thesis
    unfolding security_check_main_def b security_print by (simp add: finish_def)
qed

text \<open>
  Claim C2 says that every event whose content matches a secret pattern is blocked by
  security-check.py. It is not: on a path that the filter of \<open>check_for_secrets\<close>
  exempts, here a file of a test directory, the content of the claim's own example is
  passed in silence.
\<close>

theorem C2_counterexample:
  "\<forall>U. re_search U (fst (hd SECRET_PATTERNS))
          (u ''api_key: '' @ [34] @ u ''abcdefghijklmnopqrstu'' @ [34])
   \<and> hd SECRET_PATTERNS \<in> set SECRET_PATTERNS
   \<and> security_check_main U (Parsed (JObj [(u ''tool_input'',
        JObj [(u ''file_path'', JStr (u ''tests/test_config.py'')),
              (u ''content'', JStr (u ''api_key: '' @ [34] @ u ''abcdefghijklmnopqrstu'' @ [34]))])]))
      = ([], 0)"
proof
  fix U
  have "secret_scan_skipped U (u ''tests/test_config.py'')"
    by (simp add: skip_eval)
  then show "re_search U (fst (hd SECRET_PATTERNS))
          (u ''api_key: '' @ [34] @ u ''abcdefghijklmnopqrstu'' @ [34])
   \<and> hd SECRET_PATTERNS \<in> set SECRET_PATTERNS
   \<and> security_check_main U (Parsed (JObj [(u ''tool_input'',
        JObj [(u ''file_path'', JStr (u ''tests/test_config.py'')),
              (u ''content'', JStr (u ''api_key: '' @ [34] @ u ''abcdefghijklmnopqrstu'' @ [34]))])]))
      = ([], 0)"
    using api_key_example_matches [of U] hd_SECRET_PATTERNS
    by (simp add: security_check_main_def security_check_body_def finish_def tool_content_def
          check_for_secrets_def u_def)
qed

text \<open>
  Claim C2, amended: when the path of the event is a non-empty string that the filter
  does not exempt and that holds no surrogate code point, and the content is a string in
  which \<open>re\<close> finds a match of some secret pattern, security-check.py prints the
  header naming the file, one finding for each pattern that matches, in the order of
  \<open>SECRET_PATTERNS\<close>, and the three closing lines, and exits with status 2.
\<close>

theorem C2_secret_blocks:
  assumes "py_get input_data (u ''tool_input'') (JObj []) = Inr tool_input"
    and "py_get tool_input (u ''file_path'') (JStr []) = Inr (JStr file_path)"
    and "file_path \<noteq> []" and "\<not> secret_scan_skipped U file_path"
    and "encodable file_path"
    and "tool_content tool_input = Inr (JStr c)"
    and "\<exists>rule \<in> set SECRET_PATTERNS. re_search U (fst rule) c"
  shows "security_check_main U (Parsed input_data) =
           ([[128683] @ u '' BLOCKED - Security issue detected in '' @ file_path @ u '':'']
            @ map (\<lambda>issue. u ''  - '' @ issue) (secret_issues U SECRET_PATTERNS c)
            @ [[10] @ u ''This edit has been BLOCKED to prevent committing secrets.'',
               u ''If this is a false positive, review and adjust the patterns in security-check.py'',
               u ''See security-patterns skill for secure credential management.''], 2)
         \<and> secret_issues U SECRET_PATTERNS c \<noteq> []
         \<and> secret_issues U SECRET_PATTERNS c =
             map (\<lambda>(pat, secret_type, remediation).
                    u ''Potential '' @ secret_type @ u '' detected '' @ [8594, 32] @ remediation)
                 (filter (\<lambda>rule. re_search U (fst rule) c) SECRET_PATTERNS)"
  using assms(5) security_scan_run [OF assms(1-4) assms(6-7)]
    secret_issues_nonempty [of U SECRET_PATTERNS c] assms(7)
    secret_issues_filter [of U SECRET_PATTERNS c]
  by simp

theorem C2_secret_blocks_witness:
  "\<forall>U. security_check_main U (Parsed (JObj [(u ''tool_input'',
       JObj [(u ''file_path'', JStr (u ''src/app.ts'')),
             (u ''new_string'', JStr (u ''api_key: '' @ [34] @ u ''abcdefghijklmnopqrstu'' @ [34]))])]))
   = ([[128683] @ u '' BLOCKED - Security issue detected in src/app.ts:'',
       u ''  - Potential API key detected '' @ [8594]
         @ u '' Move to .env file and use environment variables (e.g., process.env.API_KEY)'',
       [10] @ u ''This edit has been BLOCKED to prevent committing secrets.'',
       u ''If this is a false positive, review and adjust the patterns in security-check.py'',
       u ''See security-patterns skill for secure credential management.''], 2)"
proof
  fix U
  let ?c = "u ''api_key: '' @ [34] @ u ''abcdefghijklmnopqrstu'' @ [34]"
  let ?t = "JObj [(u ''file_path'', JStr (u ''src/app.ts'')), (u ''new_string'', JStr ?c)]"
  have g1: "py_get (JObj [(u ''tool_input'', ?t)]) (u ''tool_input'') (JObj []) = Inr ?t"
    by (simp add: u_def)
  have g2: "py_get ?t (u ''file_path'') (JStr []) = Inr (JStr (u ''src/app.ts''))"
    by (simp add: u_def)
  have g3: "u ''src/app.ts'' \<noteq> []" by (simp add: u_def)
  have g4: "\<not> secret_scan_skipped U (u ''src/app.ts'')" by (simp add: skip_eval)
  have g5: "tool_content ?t = Inr (JStr ?c)" by (simp add: tool_content_def u_def)
  have g6: "\<exists>rule \<in> set SECRET_PATTERNS. re_search U (fst rule) ?c"
    using api_key_example_matches [of U] hd_SECRET_PATTERNS by blast
  have g7: "encodable (u ''src/app.ts'')" by (rule encodable_u)
  from C2_secret_blocks [OF g1 g2 g3 g4 g7 g5 g6]
  have "security_check_main U (Parsed (JObj [(u ''tool_input'', ?t)])) =
           ([[128683] @ u '' BLOCKED - Security issue detected in '' @ u ''src/app.ts'' @ u '':'']
            @ map (\<lambda>issue. u ''  - '' @ issue) (secret_issues U SECRET_PATTERNS ?c)
            @ [[10] @ u ''This edit has been BLOCKED to prevent committing secrets.'',
               u ''If this is a false positive, review and adjust the patterns in security-check.py'',
               u ''See security-patterns skill for secure credential management.''], 2)"
    by (rule conjunct1)
  then show "security_check_main U (Parsed (JObj [(u ''tool_input'', ?t)]))
   = ([[128683] @ u '' BLOCKED - Security issue detected in src/app.ts:'',
       u ''  - Potential API key detected '' @ [8594]
         @ u '' Move to .env file and use environment variables (e.g., process.env.API_KEY)'',
       [10] @ u ''This edit has been BLOCKED to prevent committing secrets.'',
       u ''If this is a false positive, review and adjust the patterns in security-check.py'',
       u ''See security-patterns skill for secure credential management.''], 2)"
    by (simp only: api_key_example_issues) (simp add: u_def)
qed

text \<open>
  When the path of such an event holds a surrogate code point, the print of the header
  raises and the run ends with nothing printed and exit status 0.
\<close>

lemma security_unencodable_path:
  assumes "py_get input_data (u ''tool_input'') (JObj []) = Inr tool_input"
    and "py_get tool_input (u ''file_path'') (JStr []) = Inr (JStr file_path)"
    and "file_path \<noteq> []" and "\<not> secret_scan_skipped U file_path"
    and "tool_content tool_input = Inr (JStr c)"
    and "\<exists>rule \<in> set SECRET_PATTERNS. re_search U (fst rule) c"
    and "\<not> encodable file_path"
  shows "security_check_main U (Parsed input_data) = ([], 0)"
  using assms(7) security_scan_run [OF assms(1-6)] by simp

subsection \<open>Large content\<close>











subsection \<open>The filters\<close>

lemma starts_with_iff: "starts_with sub s \<longleftrightarrow> (\<exists>b. s = sub @ b)"
  by (induction sub s rule: starts_with.induct) auto

lemma contains_iff: "contains sub s \<longleftrightarrow> (\<exists>a b. s = a @ sub @ b)"
proof (induction s)
  case Nil
  show ?case by auto
next
  case (Cons c cs)
  show ?case
  proof
    assume "contains sub (c # cs)"
    then consider "starts_with sub (c # cs)" | "contains sub cs" by auto
    then show "\<exists>a b. c # cs = a @ sub @ b"
    proof cases
      case 1
      then obtain b where "c # cs = sub @ b" using starts_with_iff by blast
      then have "c # cs = [] @ sub @ b" by simp
      then show ?thesis by blast
    next
      case 2
      then obtain a b where "cs = a @ sub @ b" using Cons.IH by blast
      then have "c # cs = (c # a) @ sub @ b" by simp
      then show ?thesis by blast
    qed
  next
    assume "\<exists>a b. c # cs = a @ sub @ b"
    then obtain a b where ab: "c # cs = a @ sub @ b" by blast
    show "contains sub (c # cs)"
    proof (cases a)
      case Nil
      then have "starts_with sub (c # cs)" using ab starts_with_iff by auto
      then show ?thesis by simp
    next
      case (Cons x a')
      then have "cs = a' @ sub @ b" using ab by simp
      then have "contains sub cs" using Cons.IH by blast
      then show ?thesis by simp
    qed
  qed
qed

lemma examples_has_example: "contains (u ''/examples/'') s \<Longrightarrow> contains (u ''example'') s"
proof -
  assume "contains (u ''/examples/'') s"
  then obtain a b where "s = a @ u ''/examples/'' @ b" using contains_iff by blast
  then have "s = (a @ [47]) @ u ''example'' @ (u ''s/'' @ b)" by (simp add: u_def)
  then show ?thesis using contains_iff by blast
qed

text \<open>
  Claim C4 says that the filter exempts a path exactly under the four conditions of the
  specification, and treats an absent or malformed path as not exempt. Neither filter of
  the code does: \<open>should_skip\<close> exempts every path that contains \<open>example\<close> and knows
  no list of files for the environment; the tests of \<open>check_for_secrets\<close> exempt the
  lock files and know no extensions; security-check.py does not scan when the path is
  absent, and pre-commit-check.py does not scan when the path is not a string.
\<close>

theorem C4_counterexample:
  "\<forall>U. should_skip U (u ''src/example.py'') \<and> \<not> spec_exempt U (u ''src/example.py'')
   \<and> spec_exempt U (u ''.env.template'') \<and> \<not> should_skip U (u ''.env.template'')
   \<and> secret_scan_skipped U (u ''yarn.lock'') \<and> \<not> spec_exempt U (u ''yarn.lock'')
   \<and> spec_exempt U (u ''README.md'') \<and> \<not> secret_scan_skipped U (u ''README.md'')
   \<and> security_check_main U (Parsed (JObj [(u ''tool_input'',
         JObj [(u ''content'', JStr (u ''api_key: '' @ [34] @ u ''abcdefghijklmnopqrstu''
                  @ [34]))])])) = ([], 0)
   \<and> pre_commit_check_main U (Parsed (JObj [(u ''tool_input'',
         JObj [(u ''file_path'', JInt 5), (u ''content'', JStr (u ''FIXME''))])])) = ([], 0)"
proof
  fix U
  have "should_skip U (u ''src/example.py'') \<and> \<not> spec_exempt U (u ''src/example.py'')
   \<and> spec_exempt U (u ''.env.template'') \<and> \<not> should_skip U (u ''.env.template'')
   \<and> secret_scan_skipped U (u ''yarn.lock'') \<and> \<not> spec_exempt U (u ''yarn.lock'')
   \<and> spec_exempt U (u ''README.md'') \<and> \<not> secret_scan_skipped U (u ''README.md'')"
    by (simp add: skip_eval spec_exempt_def spec_env_allow_list_def spec_exempt_segments_def)
  moreover have "security_check_main U (Parsed (JObj [(u ''tool_input'',
         JObj [(u ''content'', JStr (u ''api_key: '' @ [34] @ u ''abcdefghijklmnopqrstu''
                  @ [34]))])])) = ([], 0)"
    by (simp add: security_check_main_def security_check_body_def finish_def tool_content_def
          u_def)
  moreover have "pre_commit_check_main U (Parsed (JObj [(u ''tool_input'',
         JObj [(u ''file_path'', JInt 5), (u ''content'', JStr (u ''FIXME''))])])) = ([], 0)"
    by (simp add: pre_commit_check_main_def pre_commit_check_body_def finish_def
          tool_content_def u_def)
  ultimately show "should_skip U (u ''src/example.py'') \<and> \<not> spec_exempt U (u ''src/example.py'')
   \<and> spec_exempt U (u ''.env.template'') \<and> \<not> should_skip U (u ''.env.template'')
   \<and> secret_scan_skipped U (u ''yarn.lock'') \<and> \<not> spec_exempt U (u ''yarn.lock'')
   \<and> spec_exempt U (u ''README.md'') \<and> \<not> secret_scan_skipped U (u ''README.md'')
   \<and> security_check_main U (Parsed (JObj [(u ''tool_input'',
         JObj [(u ''content'', JStr (u ''api_key: '' @ [34] @ u ''abcdefghijklmnopqrstu''
                  @ [34]))])])) = ([], 0)
   \<and> pre_commit_check_main U (Parsed (JObj [(u ''tool_input'',
         JObj [(u ''file_path'', JInt 5), (u ''content'', JStr (u ''FIXME''))])])) = ([], 0)"
    by simp
qed

text \<open>
  Claim C4, amended. In lower case means \<open>str.lower\<close>. \<open>should_skip\<close> exempts a path
  exactly when the extension, in lower case, is in \<open>SKIP_EXTENSIONS\<close>, or the basename,
  in lower case, contains \<open>test\<close> or \<open>spec\<close>, or the path, in lower case, contains
  \<open>/tests/\<close>, \<open>/test/\<close>, \<open>/__tests__/\<close> or \<open>example\<close>. The tests of
  \<open>check_for_secrets\<close> exempt a path exactly when its basename is in \<open>SKIP_FILES\<close>
  or the path, in lower case, contains \<open>test\<close> or \<open>spec\<close>. When the path is absent,
  empty or otherwise false, pre-commit-check.py scans the content and security-check.py
  leaves with status 0 before any scan; when the path is true and not a string, both print
  nothing and exit with status 0.
\<close>

theorem C4_filters:
  "(should_skip U p \<longleftrightarrow>
      lower U (splitext_ext p) \<in> set SKIP_EXTENSIONS
      \<or> (\<exists>a b. lower U (basename p) = a @ u ''test'' @ b)
      \<or> (\<exists>a b. lower U (basename p) = a @ u ''spec'' @ b)
      \<or> (\<exists>a b. lower U p = a @ u ''/tests/'' @ b)
      \<or> (\<exists>a b. lower U p = a @ u ''/test/'' @ b)
      \<or> (\<exists>a b. lower U p = a @ u ''/__tests__/'' @ b)
      \<or> (\<exists>a b. lower U p = a @ u ''example'' @ b))
   \<and> (secret_scan_skipped U p \<longleftrightarrow>
        basename p \<in> set SKIP_FILES
        \<or> (\<exists>a b. lower U p = a @ u ''test'' @ b)
        \<or> (\<exists>a b. lower U p = a @ u ''spec'' @ b))
   \<and> (py_get input_data (u ''tool_input'') (JObj []) = Inr tool_input
        \<and> py_get tool_input (u ''file_path'') (JStr []) = Inr fp
        \<and> tool_content tool_input = Inr content
      \<longrightarrow> (\<not> truthy fp \<longrightarrow>
             pre_commit_check_body U (Parsed input_data)
               = (if truthy content then pre_commit_scan U content else ([], Exits 0))
             \<and> security_check_body U (Parsed input_data) = ([], Exits 0))
        \<and> (truthy fp \<and> (\<forall>s. fp \<noteq> JStr s) \<longrightarrow>
             pre_commit_check_main U (Parsed input_data) = ([], 0)
             \<and> security_check_main U (Parsed input_data) = ([], 0)))"
proof -
  have 1: "should_skip U p \<longleftrightarrow>
      lower U (splitext_ext p) \<in> set SKIP_EXTENSIONS
      \<or> contains (u ''test'') (lower U (basename p))
      \<or> contains (u ''spec'') (lower U (basename p))
      \<or> contains (u ''/tests/'') (lower U p)
      \<or> contains (u ''/test/'') (lower U p)
      \<or> contains (u ''/__tests__/'') (lower U p)
      \<or> contains (u ''example'') (lower U p)"
    using examples_has_example [of "lower U p"] by (auto simp: should_skip_def Let_def)
  have 2: "secret_scan_skipped U p \<longleftrightarrow>
        basename p \<in> set SKIP_FILES
        \<or> contains (u ''test'') (lower U p) \<or> contains (u ''spec'') (lower U p)"
    by (auto simp: secret_scan_skipped_def)
  have 3: "py_get input_data (u ''tool_input'') (JObj []) = Inr tool_input
        \<and> py_get tool_input (u ''file_path'') (JStr []) = Inr fp
        \<and> tool_content tool_input = Inr content
      \<longrightarrow> (\<not> truthy fp \<longrightarrow>
             pre_commit_check_body U (Parsed input_data)
               = (if truthy content then pre_commit_scan U content else ([], Exits 0))
             \<and> security_check_body U (Parsed input_data) = ([], Exits 0))
        \<and> (truthy fp \<and> (\<forall>s. fp \<noteq> JStr s) \<longrightarrow>
             pre_commit_check_main U (Parsed input_data) = ([], 0)
             \<and> security_check_main U (Parsed input_data) = ([], 0))"
    by (cases fp)
       (auto simp: pre_commit_check_body_def security_check_body_def pre_commit_check_main_def
          security_check_main_def finish_def)
  show ?thesis unfolding 1 2 contains_iff using 3 by blast
qed

theorem C4_filters_witness:
  "\<forall>U. pre_commit_check_body U (Parsed (JObj [(u ''tool_input'',
       JObj [(u ''content'', JStr (u ''FIXME''))])]))
     = pre_commit_scan U (JStr (u ''FIXME''))
   \<and> security_check_body U (Parsed (JObj [(u ''tool_input'',
       JObj [(u ''content'', JStr (u ''FIXME''))])])) = ([], Exits 0)
   \<and> pre_commit_check_main U (Parsed (JObj [(u ''tool_input'',
       JObj [(u ''file_path'', JInt 5), (u ''content'', JStr (u ''FIXME''))])])) = ([], 0)
   \<and> security_check_main U (Parsed (JObj [(u ''tool_input'',
       JObj [(u ''file_path'', JInt 5), (u ''content'', JStr (u ''FIXME''))])])) = ([], 0)"
proof
  fix U
  let ?t1 = "JObj [(u ''content'', JStr (u ''FIXME''))]"
  let ?t2 = "JObj [(u ''file_path'', JInt 5), (u ''content'', JStr (u ''FIXME''))]"
  have a: "py_get (JObj [(u ''tool_input'', ?t1)]) (u ''tool_input'') (JObj []) = Inr ?t1
        \<and> py_get ?t1 (u ''file_path'') (JStr []) = Inr (JStr [])
        \<and> tool_content ?t1 = Inr (JStr (u ''FIXME''))"
    by (simp add: tool_content_def u_def)
  have b: "py_get (JObj [(u ''tool_input'', ?t2)]) (u ''tool_input'') (JObj []) = Inr ?t2
        \<and> py_get ?t2 (u ''file_path'') (JStr []) = Inr (JInt 5)
        \<and> tool_content ?t2 = Inr (JStr (u ''FIXME''))"
    by (simp add: tool_content_def u_def)
  have c: "\<not> truthy (JStr [])" "truthy (JStr (u ''FIXME''))"
    "truthy (JInt 5) \<and> (\<forall>s. JInt 5 \<noteq> JStr s)"
    by (simp_all add: u_def)
  from C4_filters [of U _ "JObj [(u ''tool_input'', ?t1)]" ?t1 "JStr []" "JStr (u ''FIXME'')"]
       C4_filters [of U _ "JObj [(u ''tool_input'', ?t2)]" ?t2 "JInt 5" "JStr (u ''FIXME'')"]
       a b c
  show "pre_commit_check_body U (Parsed (JObj [(u ''tool_input'', ?t1)]))
     = pre_commit_scan U (JStr (u ''FIXME''))
   \<and> security_check_body U (Parsed (JObj [(u ''tool_input'', ?t1)])) = ([], Exits 0)
   \<and> pre_commit_check_main U (Parsed (JObj [(u ''tool_input'', ?t2)])) = ([], 0)
   \<and> security_check_main U (Parsed (JObj [(u ''tool_input'', ?t2)])) = ([], 0)"
    by simp
qed

subsection \<open>The metrics file\<close>

lemma hex_digit_printable: "32 \<le> hex_digit (k mod 16) \<and> hex_digit (k mod 16) \<le> 126"
proof -
  have "k mod 16 < 16" by simp
  then show ?thesis unfolding hex_digit_def by presburger
qed

lemma hex4_printable: "set (hex4 n) \<subseteq> {32..126}"
  by (simp add: hex4_def hex_digit_printable)

lemma json_escape_printable: "set (json_escape c) \<subseteq> {32..126}"
proof -
  have "set ([92, 117] @ hex4 a) \<subseteq> {32..126}" for a
    using hex4_printable [of a] by simp
  moreover have "set ([92, 117] @ hex4 a @ [92, 117] @ hex4 b) \<subseteq> {32..126}" for a b
    using hex4_printable [of a] hex4_printable [of b] by simp
  ultimately show ?thesis
    unfolding json_escape_def by (simp del: set_append append.simps)
qed

lemma dumps_str_printable: "set (dumps_str s) \<subseteq> {32..126}"
proof -
  have "set (concat (map json_escape s)) \<subseteq> {32..126}"
    using json_escape_printable by (induction s) auto
  then show ?thesis by (simp add: dumps_str_def)
qed

lemma str_of_int_printable: "set (str_of_int i) \<subseteq> {32..126}"
  using str_of_nat_printable [of "nat (- i)"] str_of_nat_printable [of "nat i"]
  by (simp add: str_of_int_def)

lemma dumps_val_printable: "set (dumps_val v) \<subseteq> {32..126}"
  by (cases v) (simp_all add: dumps_str_printable str_of_int_printable, simp add: u_def)

lemma dumps_items_printable: "set (dumps_items kvs) \<subseteq> {32..126}"
  by (induction kvs rule: dumps_items.induct)
     (simp_all add: dumps_str_printable dumps_val_printable, simp_all add: u_def)

lemma json_dumps_one_line: "10 \<notin> set (json_dumps entry)"
proof -
  have "set (json_dumps entry) \<subseteq> {32..126}"
    using dumps_items_printable [of entry] by (simp add: json_dumps_def u_def)
  then show ?thesis by auto
qed

lemma dumps_key:
  "dumps_str (u ''timestamp'') = [34] @ u ''timestamp'' @ [34]"
  "dumps_str (u ''files_changed'') = [34] @ u ''files_changed'' @ [34]"
  "dumps_str (u ''commit'') = [34] @ u ''commit'' @ [34]"
  "dumps_str (u ''duration_hint'') = [34] @ u ''duration_hint'' @ [34]"
  "dumps_str (u ''completed'') = [34] @ u ''completed'' @ [34]"
  by (simp_all add: dumps_str_def json_escape_def u_def)

lemma metrics_line:
  "json_dumps (metrics_entry U e) =
     u ''{'' @ [34] @ u ''timestamp'' @ [34] @ u '': '' @ dumps_str (now_isoformat e)
     @ u '', '' @ [34] @ u ''files_changed'' @ [34] @ u '': '' @ str_of_int (get_files_changed U e)
     @ u '', '' @ [34] @ u ''commit'' @ [34] @ u '': ''
     @ (if get_latest_commit e = [] then u ''null'' else dumps_str (get_latest_commit e))
     @ u '', '' @ [34] @ u ''duration_hint'' @ [34] @ u '': '' @ [34] @ u ''completed'' @ [34]
     @ u ''}''"
  by (simp add: json_dumps_def metrics_entry_def Let_def dumps_key)


text \<open>
  Claim C9 says that each invocation of track-metrics.py appends one record. When the
  directory cannot be created (or the file cannot be opened, or there is no working
  directory) the exception is passed over and nothing is written; the exit status is
  still 0.
\<close>

theorem C9_counterexample:
  "\<forall>U. track_metrics_main U
     \<lparr>subprocess_run = (\<lambda>cmd. Fails), now_isoformat = u ''2026-11-03T17:10:00+00:00'',
      CLAUDE_PROJECT_DIR = None, getcwd = Some (u ''/srv/app''),
      makedirs_ok = (\<lambda>d. False), append_ok = (\<lambda>f. True),
      int_max_str_digits = 4300\<rparr>
     Map.empty (Parsed (JObj []))
   = (Map.empty, 0)"
  by (simp add: track_metrics_main_def Let_def)

text \<open>
  Claim C9, amended: when the working directory can be read, the directory \<open>.claude\<close>
  of the project can be created and the metrics file can be opened for appending, the
  invocation leaves every other file as it was and extends the metrics file, at its end,
  by exactly one line, ended by a newline and containing none; the line is a JSON object
  with the keys \<open>timestamp\<close> (the string that \<open>isoformat\<close> returned),
  \<open>files_changed\<close> (an integer), \<open>commit\<close> (a string, or \<open>null\<close> when there is
  no commit line) and \<open>duration_hint\<close> (the string \<open>completed\<close>), in this order.
\<close>

theorem C9_appends_one_record:
  assumes "getcwd e = Some cwd"
    and "project_dir = (case CLAUDE_PROJECT_DIR e of None \<Rightarrow> cwd | Some d \<Rightarrow> d)"
    and "makedirs_ok e (path_join project_dir (u ''.claude''))"
    and "append_ok e (metrics_file_of project_dir)"
  shows "track_metrics_main U e fs inp =
           (fs(metrics_file_of project_dir \<mapsto>
                 (case fs (metrics_file_of project_dir) of None \<Rightarrow> [] | Some old \<Rightarrow> old)
                   @ json_dumps (metrics_entry U e) @ [10]), 0)
         \<and> 10 \<notin> set (json_dumps (metrics_entry U e))
         \<and> json_dumps (metrics_entry U e) =
             u ''{'' @ [34] @ u ''timestamp'' @ [34] @ u '': '' @ dumps_str (now_isoformat e)
             @ u '', '' @ [34] @ u ''files_changed'' @ [34] @ u '': ''
             @ str_of_int (get_files_changed U e)
             @ u '', '' @ [34] @ u ''commit'' @ [34] @ u '': ''
             @ (if get_latest_commit e = [] then u ''null'' else dumps_str (get_latest_commit e))
             @ u '', '' @ [34] @ u ''duration_hint'' @ [34] @ u '': '' @ [34] @ u ''completed''
             @ [34] @ u ''}''"
  using assms json_dumps_one_line [of "metrics_entry U e"] metrics_line [of U e]
  by (simp add: track_metrics_main_def metrics_file_of_def Let_def)


theorem C9_appends_one_record_witness:
  "\<forall>U. track_metrics_main U
     \<lparr>subprocess_run = (\<lambda>cmd.
         if cmd = [u ''git'', u ''diff'', u ''--stat'', u ''HEAD'']
         then Completes 0 (u '' a.py | 2 +-'' @ [10]
                @ u '' 2 files changed, 10 insertions(+), 2 deletions(-)'' @ [10])
         else Completes 0 (u ''abc1234 Fix it'' @ [10])),
      now_isoformat = u ''2026-11-03T17:10:00+00:00'',
      CLAUDE_PROJECT_DIR = None, getcwd = Some (u ''/srv/app''),
      makedirs_ok = (\<lambda>d. True), append_ok = (\<lambda>f. True),
      int_max_str_digits = 4300\<rparr>
     [u ''/srv/app/.claude/agent-metrics.jsonl'' \<mapsto> u ''{}'' @ [10]] Malformed
   = ([u ''/srv/app/.claude/agent-metrics.jsonl'' \<mapsto>
        u ''{}'' @ [10]
        @ u ''{'' @ [34] @ u ''timestamp'' @ [34] @ u '': '' @ [34]
        @ u ''2026-11-03T17:10:00+00:00'' @ [34] @ u '', '' @ [34] @ u ''files_changed'' @ [34]
        @ u '': 2, '' @ [34] @ u ''commit'' @ [34] @ u '': '' @ [34] @ u ''abc1234 Fix it''
        @ [34] @ u '', '' @ [34] @ u ''duration_hint'' @ [34] @ u '': '' @ [34]
        @ u ''completed'' @ [34] @ u ''}'' @ [10]], 0)"
proof
  fix U
  let ?e = "\<lparr>subprocess_run = (\<lambda>cmd.
         if cmd = [u ''git'', u ''diff'', u ''--stat'', u ''HEAD'']
         then Completes 0 (u '' a.py | 2 +-'' @ [10]
                @ u '' 2 files changed, 10 insertions(+), 2 deletions(-)'' @ [10])
         else Completes 0 (u ''abc1234 Fix it'' @ [10])),
      now_isoformat = u ''2026-11-03T17:10:00+00:00'',
      CLAUDE_PROJECT_DIR = None, getcwd = Some (u ''/srv/app''),
      makedirs_ok = (\<lambda>d. True), append_ok = (\<lambda>f. True),
      int_max_str_digits = 4300\<rparr>"
  have a: "getcwd ?e = Some (u ''/srv/app'')" by simp
  have b: "u ''/srv/app'' = (case CLAUDE_PROJECT_DIR ?e of None \<Rightarrow> u ''/srv/app'' | Some d \<Rightarrow> d)"
    by simp
  have c: "makedirs_ok ?e (path_join (u ''/srv/app'') (u ''.claude''))" by simp
  have d: "append_ok ?e (metrics_file_of (u ''/srv/app''))" by simp
  have f: "metrics_file_of (u ''/srv/app'') = u ''/srv/app/.claude/agent-metrics.jsonl''"
    by (simp add: metrics_file_of_def path_join_def u_def)
  have n: "get_files_changed U ?e = 2"
    by (simp add: get_files_changed_def run_command_def strip_def is_space_def Let_def
          split_words_def py_int_def py_nat_def digit_of_def too_many_digits_def
          int_space_def u_def)
  have l: "get_latest_commit ?e = u ''abc1234 Fix it''"
    by (simp add: get_latest_commit_def run_command_def strip_def is_space_def u_def)
  have t: "dumps_str (u ''2026-11-03T17:10:00+00:00'') = [34] @ u ''2026-11-03T17:10:00+00:00'' @ [34]"
    "dumps_str (u ''abc1234 Fix it'') = [34] @ u ''abc1234 Fix it'' @ [34]"
    by (simp_all add: dumps_str_def json_escape_def u_def)
  have ne: "u ''abc1234 Fix it'' \<noteq> []" by (simp add: u_def)
  have i: "str_of_int 2 = u ''2''"
    by (simp add: str_of_int_def str_of_nat.simps [of 2] u_def)
  from C9_appends_one_record [OF a b c d, of U "[u ''/srv/app/.claude/agent-metrics.jsonl'' \<mapsto> u ''{}'' @ [10]]" Malformed]
  have "track_metrics_main U ?e [u ''/srv/app/.claude/agent-metrics.jsonl'' \<mapsto> u ''{}'' @ [10]] Malformed
      = ([u ''/srv/app/.claude/agent-metrics.jsonl'' \<mapsto> u ''{}'' @ [10]
            @ json_dumps (metrics_entry U ?e) @ [10]], 0)"
    by (simp add: f)
  moreover have "json_dumps (metrics_entry U ?e) =
        u ''{'' @ [34] @ u ''timestamp'' @ [34] @ u '': ''
        @ ([34] @ u ''2026-11-03T17:10:00+00:00'' @ [34])
        @ u '', '' @ [34] @ u ''files_changed'' @ [34] @ u '': '' @ u ''2''
        @ u '', '' @ [34] @ u ''commit'' @ [34] @ u '': ''
        @ ([34] @ u ''abc1234 Fix it'' @ [34])
        @ u '', '' @ [34] @ u ''duration_hint'' @ [34] @ u '': '' @ [34] @ u ''completed'' @ [34]
        @ u ''}''"
    by (simp add: metrics_line n l t i ne)
  ultimately show "track_metrics_main U ?e
        [u ''/srv/app/.claude/agent-metrics.jsonl'' \<mapsto> u ''{}'' @ [10]] Malformed
   = ([u ''/srv/app/.claude/agent-metrics.jsonl'' \<mapsto>
        u ''{}'' @ [10]
        @ u ''{'' @ [34] @ u ''timestamp'' @ [34] @ u '': '' @ [34]
        @ u ''2026-11-03T17:10:00+00:00'' @ [34] @ u '', '' @ [34] @ u ''files_changed'' @ [34]
        @ u '': 2, '' @ [34] @ u ''commit'' @ [34] @ u '': '' @ [34] @ u ''abc1234 Fix it''
        @ [34] @ u '', '' @ [34] @ u ''duration_hint'' @ [34] @ u '': '' @ [34]
        @ u ''completed'' @ [34] @ u ''}'' @ [10]], 0)"
    by (simp add: u_def)
qed

lemma track_metrics_unchanged:
  "getcwd e = None \<or> (\<forall>d. \<not> makedirs_ok e d) \<or> (\<forall>f. \<not> append_ok e f)
     \<Longrightarrow> track_metrics_main U e fs inp = (fs, 0)"
  by (auto simp: track_metrics_main_def Let_def split: option.splits)

lemma track_metrics_status: "snd (track_metrics_main U e fs inp) = 0"
  by (auto simp: track_metrics_main_def Let_def split: option.splits)

subsection \<open>Code points outside ASCII\<close>

text \<open>
  The functions that consult the Unicode database give, on the entries that the database
  has, what Python gives. The long s (383) is its own lower case and \<open>re\<close> counts it
  as the letter \<open>s\<close> under \<open>(?i)\<close>, so \<^verbatim>\<open>pa\<close>, two long s and \<^verbatim>\<open>word = 'x'\<close>
  is a finding of the pattern for passwords; the Kelvin sign (8490) has the lower case
  \<open>k\<close>, so a file with the extension \<^verbatim>\<open>.mar\<close>, Kelvin sign, \<^verbatim>\<open>down\<close> is exempt; the
  letter e with acute accent (233) is alphanumeric, so \<open>FIXME\<close> right after it does not
  begin at a word boundary; and the Arabic-Indic digit three (1635) is read by \<open>int\<close>.
\<close>

lemma long_s_is_s:
  assumes "unicode_tolower U 383 = 383"
  shows "re_search U (fst (SECRET_PATTERNS ! 1))
           (u ''pa'' @ [383, 383] @ u ''word = '' @ [39] @ u ''x'' @ [39])"
  using assms by (simp add: SECRET_PATTERNS_def rx_eval)

lemma kelvin_sign_is_k:
  assumes "str_lower U (u ''.mar'' @ [8490] @ u ''down'') = u ''.markdown''"
  shows "should_skip U (u ''notes.mar'' @ [8490] @ u ''down'')"
  using assms by (simp add: should_skip_def SKIP_EXTENSIONS_def basename_def splitext_ext_def
        lower_def is_ascii_def u_def)

lemma no_boundary_after_letter:
  assumes "isalnum U 233"
  shows "\<not> re_search U (fst (hd TEMP_MARKERS)) ([233] @ u ''FIXME'')"
  using assms by (simp add: TEMP_MARKERS_def rx_eval)

lemma arabic_indic_digit:
  assumes "decimal U 1635 = Some 3"
  shows "py_int U 4300 [1635] = Some 3"
  using assms by (simp add: py_int_def py_nat_def digit_of_def too_many_digits_def
        int_space_def is_space_def)

end
